theory Spec2Isabelle
  imports Complex_Main "HOL-Library.AList"
begin

section \<open>Python values, exceptions and the world outside the process\<close>

text \<open>
  The repository is sequential glue between the local file system, pandas, the docplex
  modelling library and the Watson Machine Learning client. The embedding keeps the
  repository's own functions as HOL functions over an explicit world: the files, the
  state of everything remote, and the list of observable events (calls issued to the
  outside, records handed to \<^verbatim>\<open>logging\<close>, lines printed).
  Exceptions are values: a function that can raise returns \<open>py_error + 'a\<close>.
\<close>

text \<open>JSON-like Python values: what \<^verbatim>\<open>json.load\<close> returns and what the client hands back.
  A dict is an association list in insertion order; \<open>JNull\<close> is \<^verbatim>\<open>None\<close>.\<close>

datatype json =
    JNull
  | JBool bool
  | JNum rat
  | JStr string
  | JArr "json list"
  | JObj "(string \<times> json) list"

text \<open>A pandas cell; a dict key or an index label is one too.\<close>

datatype cell = Num rat | Str string | NaN

text \<open>Every constructor stands for a subclass of Python's \<^verbatim>\<open>Exception\<close>; \<open>OSError n\<close> is
  the subclass of \<^verbatim>\<open>OSError\<close> named \<open>n\<close>, other than \<^verbatim>\<open>FileNotFoundError\<close>
  (\<^verbatim>\<open>IsADirectoryError\<close>, \<^verbatim>\<open>PermissionError\<close>), and \<open>ApiError\<close> is whatever exception a
  call to the outside raises.\<close>

datatype py_error =
    FileNotFoundError string
  | JSONDecodeError
  | UnicodeDecodeError
  | RecursionError
  | OSError string
  | UnpicklingError
  | EOFError
  | KeyError cell
  | TypeError
  | AttributeError
  | ValueError
  | StopIteration
  | NotImplementedError string
  | ParserError
  | DOcplexException
  | ApiError string

text \<open>A DataFrame as its column names and its rows, every row carrying its index label and
  its cells by column name.\<close>

record dataframe =
  columns :: "string list"
  records :: "(cell \<times> (string \<times> cell) list) list"

text \<open>
  A path that exists is known by what each way of loading it gives: the value loaded, or the
  exception that opening or loading raises. \<^verbatim>\<open>open(path, 'r')\<close> followed by
  \<^verbatim>\<open>json.load\<close> fails because the path cannot be opened (a directory, no permission), the
  bytes are not UTF-8 text, the text is not JSON, or the JSON is nested too deeply;
  \<^verbatim>\<open>pickle.load\<close> and \<^verbatim>\<open>pd.read_csv\<close> raise whatever they raise.
\<close>

datatype json_failure = NotOpened string | NotUtf8 | NotJson | TooDeep

fun json_error :: "json_failure \<Rightarrow> py_error" where
  "json_error (NotOpened n) = OSError n"
| "json_error NotUtf8 = UnicodeDecodeError"
| "json_error NotJson = JSONDecodeError"
| "json_error TooDeep = RecursionError"

record disk_file =
  json_of :: "json_failure + json"
  pickle_of :: "py_error + json"
  csv_of :: "py_error + dataframe"

text \<open>The job payload: a dict from the client's meta names to lists of entries.\<close>

record payload_entry =
  entry_id :: string
  entry_values :: "dataframe option"

type_synonym payload = "(string \<times> payload_entry list) list"

text \<open>The calls the repository issues to the outside: the Watson Machine Learning client, the
  local packaging of the model, and \<^verbatim>\<open>time.sleep\<close>.\<close>

datatype call =
    APIClient json
  | SetDefaultSpace json
  | SpacesList nat
  | DeploymentsDelete json
  | RepositoryDelete json
  | Today
  | Makedirs string
  | TarAdd string string string
  | GetUidByName string
  | StoreModel string json
  | GetModelId json
  | DeploymentsCreate json json
  | DeploymentsGetId json
  | CreateJob json payload
  | GetJobUid json
  | GetJobStatus json
  | GetJobDetails json
  | Sleep nat

datatype event =
    Called call
  | LogException py_error
  | LogInfo json dataframe
  | LogWarning string
  | Printed string

record 'w world =
  files :: "string \<rightharpoonup> disk_file"
  listing :: "string list"
  remote :: 'w
  events :: "event list"

text \<open>The outside answers a call from its own state and moves to a new one.\<close>

type_synonym 'w outside = "call \<Rightarrow> 'w \<Rightarrow> (py_error + json) \<times> 'w"

definition invoke :: "'w outside \<Rightarrow> call \<Rightarrow> 'w world \<Rightarrow> (py_error + json) \<times> 'w world" where
  "invoke api c s =
     (case api c (remote s) of
        (r, w') \<Rightarrow> (r, s\<lparr>remote := w', events := events s @ [Called c]\<rparr>))"

definition emit :: "event \<Rightarrow> 'w world \<Rightarrow> 'w world" where
  "emit e s = s\<lparr>events := events s @ [e]\<rparr>"

text \<open>Sequencing of statements that may raise, and \<^verbatim>\<open>try: ... except Exception\<close>.\<close>

definition and_then ::
  "('s \<Rightarrow> (py_error + 'a) \<times> 's) \<Rightarrow> ('a \<Rightarrow> 's \<Rightarrow> (py_error + 'b) \<times> 's) \<Rightarrow> 's \<Rightarrow> (py_error + 'b) \<times> 's" where
  "and_then m f s = (case m s of (Inl e, s') \<Rightarrow> (Inl e, s') | (Inr x, s') \<Rightarrow> f x s')"

definition pure :: "py_error + 'a \<Rightarrow> 's \<Rightarrow> (py_error + 'a) \<times> 's" where
  "pure r s = (r, s)"

subsection \<open>Python built-ins used by the repository\<close>

text \<open>\<^verbatim>\<open>obj[key]\<close> with a string key: a dict looks the key up, anything else cannot be
  subscripted by a string.\<close>

fun subscript :: "json \<Rightarrow> string \<Rightarrow> py_error + json" where
  "subscript (JObj kvs) k = (case map_of kvs k of None \<Rightarrow> Inl (KeyError (Str k)) | Some v \<Rightarrow> Inr v)"
| "subscript _ k = Inl TypeError"

text \<open>\<^verbatim>\<open>obj[key] = v\<close> with a string key.\<close>

fun setitem :: "json \<Rightarrow> string \<Rightarrow> json \<Rightarrow> py_error + json" where
  "setitem (JObj kvs) k v = Inr (JObj (AList.update k v kvs))"
| "setitem _ k v = Inl TypeError"

text \<open>\<^verbatim>\<open>obj.get(key)\<close>: only a dict has the method.\<close>

fun py_get :: "json \<Rightarrow> string \<Rightarrow> py_error + json" where
  "py_get (JObj kvs) k = (case map_of kvs k of None \<Rightarrow> Inr JNull | Some v \<Rightarrow> Inr v)"
| "py_get _ k = Inl AttributeError"

text \<open>\<^verbatim>\<open>s[-n:]\<close>.\<close>

definition last_chars :: "nat \<Rightarrow> string \<Rightarrow> string" where
  "last_chars n s = drop (length s - n) s"

text \<open>\<^verbatim>\<open>str.rfind\<close> of one character: the last position, or -1.\<close>

fun rfind :: "char \<Rightarrow> string \<Rightarrow> int" where
  "rfind c [] = -1"
| "rfind c (x # xs) =
     (let r = rfind c xs in if 0 \<le> r then r + 1 else if x = c then 0 else -1)"

text \<open>\<^verbatim>\<open>os.path.splitext\<close> (posixpath): the extension starts at the last dot after the last
  separator, unless only dots stand between the separator and that dot.\<close>

definition splitext :: "string \<Rightarrow> string \<times> string" where
  "splitext p =
     (let sepIndex = rfind (CHR ''/'') p;
          dotIndex = rfind (CHR ''.'') p
      in if sepIndex < dotIndex \<and>
            list_ex (\<lambda>c. c \<noteq> CHR ''.'')
              (take (nat (dotIndex - (sepIndex + 1))) (drop (nat (sepIndex + 1)) p))
         then (take (nat dotIndex) p, drop (nat dotIndex) p)
         else (p, []))"

section \<open>utils.py\<close>

definition load_from_disk :: "string \<Rightarrow> 'w world \<Rightarrow> py_error + json" where
  "load_from_disk file_name s =
     (if last_chars 4 file_name = ''.pkl'' then
        (case files s file_name of
           None \<Rightarrow> Inl (FileNotFoundError file_name)
         | Some f \<Rightarrow> pickle_of f)
      else if last_chars 5 file_name = ''.json'' then
        (case files s file_name of
           None \<Rightarrow> Inl (FileNotFoundError file_name)
         | Some f \<Rightarrow> (case json_of f of Inl failure \<Rightarrow> Inl (json_error failure) | Inr v \<Rightarrow> Inr v))
      else Inr JNull)"

text \<open>\<^verbatim>\<open>json.dump\<close> into a file opened for writing: afterwards the file loads as \<open>obj\<close> with
  \<^verbatim>\<open>json.load\<close>, and is neither a pickle nor a table.\<close>

definition write_to_disk :: "json \<Rightarrow> string \<Rightarrow> 'w world \<Rightarrow> (py_error + unit) \<times> 'w world" where
  "write_to_disk obj file_name s =
     (case splitext file_name of
        (name, extension) \<Rightarrow>
          if extension = ''.json'' then
            (Inr (), s\<lparr>files := (files s)(file_name \<mapsto>
                        \<lparr>json_of = Inr obj, pickle_of = Inl UnpicklingError, csv_of = Inl ParserError\<rparr>)\<rparr>)
          else (Inl (NotImplementedError (extension @ '' not implemented.'')), s))"

definition get_spaces :: "'w outside \<Rightarrow> 'w world \<Rightarrow> (py_error + json) \<times> 'w world" where
  "get_spaces api = invoke api (SpacesList 10)"

text \<open>The two files of the project root, \<^verbatim>\<open>Path(__file__).parent.parent.joinpath(...)\<close>.\<close>

definition auth_path :: string where
  "auth_path = ''auth.json''"

definition settings_path :: string where
  "settings_path = ''settings.json''"

definition auth_structure_msg :: string where
  "auth_structure_msg =
     ''Please provide the auth.json in the following structure: {\"api_key\": \"API_KEY_HERE\"}''"

definition auth_missing_msg :: string where
  "auth_missing_msg = ''Please place the auth.json file in the root of project directory.''"

definition project_structure_msg :: string where
  "project_structure_msg =
     ''Please provide the settings.json in the following structure: {\"project_id\": \"PROJECT_ID_HERE\"}''"

definition space_structure_msg :: string where
  "space_structure_msg =
     ''Please provide the settings.json in the following structure: {\"space_uid\": \"SPACE_UID\"}''"

definition settings_missing_msg :: string where
  "settings_missing_msg = ''Please place the settings.json file in the root of project directory.''"

text \<open>The body of the \<^verbatim>\<open>try\<close> shared by the three getters: load the file, subscript the
  result.\<close>

definition load_key :: "string \<Rightarrow> string \<Rightarrow> 'w world \<Rightarrow> py_error + json" where
  "load_key path k s =
     (case load_from_disk path s of Inl e \<Rightarrow> Inl e | Inr v \<Rightarrow> subscript v k)"

text \<open>The two \<^verbatim>\<open>except\<close> clauses of the getters, in the source's order; any other exception
  propagates as it is.\<close>

fun reraise :: "string \<Rightarrow> string \<Rightarrow> py_error \<Rightarrow> 'w world \<Rightarrow> (py_error + json) \<times> 'w world" where
  "reraise missing_msg structure_msg (FileNotFoundError m) s =
     (Inl (FileNotFoundError missing_msg), emit (LogException (FileNotFoundError m)) s)"
| "reraise missing_msg structure_msg JSONDecodeError s =
     (Inl (KeyError (Str structure_msg)), emit (LogException JSONDecodeError) s)"
| "reraise missing_msg structure_msg (KeyError k) s =
     (Inl (KeyError (Str structure_msg)), emit (LogException (KeyError k)) s)"
| "reraise missing_msg structure_msg e s = (Inl e, s)"

definition get_api_key :: "'w world \<Rightarrow> (py_error + json) \<times> 'w world" where
  "get_api_key s =
     (case load_key auth_path ''api_key'' s of
        Inl e \<Rightarrow> reraise auth_missing_msg auth_structure_msg e s
      | Inr api_key \<Rightarrow> (Inr api_key, s))"

definition get_project_id :: "'w world \<Rightarrow> (py_error + json) \<times> 'w world" where
  "get_project_id s =
     (case load_key settings_path ''project_id'' s of
        Inl e \<Rightarrow> reraise settings_missing_msg project_structure_msg e s
      | Inr project_id \<Rightarrow> (Inr project_id, s))"

definition get_space_uid :: "'w world \<Rightarrow> (py_error + json) \<times> 'w world" where
  "get_space_uid s =
     (case load_key settings_path ''space_uid'' s of
        Inl e \<Rightarrow> reraise settings_missing_msg space_structure_msg e s
      | Inr space_uid \<Rightarrow> (Inr space_uid, s))"

definition get_settings :: "'w world \<Rightarrow> py_error + json \<times> string" where
  "get_settings s =
     (case load_from_disk settings_path s of
        Inl e \<Rightarrow> Inl e
      | Inr settings \<Rightarrow> Inr (settings, settings_path))"

definition store_deployment_id :: "json \<Rightarrow> 'w world \<Rightarrow> (py_error + unit) \<times> 'w world" where
  "store_deployment_id deployment_id s =
     (case get_settings s of
        Inl e \<Rightarrow> (Inl e, s)
      | Inr (settings, path) \<Rightarrow>
          (case setitem settings ''deployment_id'' deployment_id of
             Inl e \<Rightarrow> (Inl e, s)
           | Inr settings' \<Rightarrow> write_to_disk settings' path s))"

definition store_publishing_id :: "json \<Rightarrow> 'w world \<Rightarrow> (py_error + unit) \<times> 'w world" where
  "store_publishing_id deployment_id s =
     (case get_settings s of
        Inl e \<Rightarrow> (Inl e, s)
      | Inr (settings, path) \<Rightarrow>
          (case setitem settings ''publishing_id'' deployment_id of
             Inl e \<Rightarrow> (Inl e, s)
           | Inr settings' \<Rightarrow> write_to_disk settings' path s))"

definition get_publish_id :: "'w world \<Rightarrow> py_error + json" where
  "get_publish_id s =
     (case get_settings s of
        Inl e \<Rightarrow> Inl e
      | Inr (settings, path) \<Rightarrow> subscript settings ''publishing_id'')"

definition get_deployment_id :: "'w world \<Rightarrow> py_error + json" where
  "get_deployment_id s =
     (case get_settings s of
        Inl e \<Rightarrow> Inl e
      | Inr (settings, path) \<Rightarrow> subscript settings ''deployment_id'')"

text \<open>The client object is a handle: the outside knows which client is connected, so the calls
  made through it do not carry it.\<close>

definition get_wml_client :: "'w outside \<Rightarrow> json \<Rightarrow> 'w world \<Rightarrow> (py_error + json) \<times> 'w world" where
  "get_wml_client api wml_credentials =
     and_then get_space_uid (\<lambda>space_uid.
     and_then (invoke api (APIClient wml_credentials)) (\<lambda>client.
     and_then (invoke api (SetDefaultSpace space_uid)) (\<lambda>_.
     pure (Inr client))))"

text \<open>\<^verbatim>\<open>os.path.basename\<close>.\<close>

definition basename :: "string \<Rightarrow> string" where
  "basename p = drop (nat (rfind (CHR ''/'') p + 1)) p"

definition zip_model :: "'w outside \<Rightarrow> string \<Rightarrow> string \<Rightarrow> 'w world \<Rightarrow> (py_error + string) \<times> 'w world" where
  "zip_model api path_to_python_model model_name =
     and_then (invoke api (Makedirs model_name)) (\<lambda>_.
     (let path_to_zip = model_name @ ''/model.tar.gz'' in
      and_then (invoke api (TarAdd path_to_zip path_to_python_model (basename path_to_python_model))) (\<lambda>_.
      pure (Inr path_to_zip))))"

text \<open>The client's \<^verbatim>\<open>ModelMetaNames\<close> and \<^verbatim>\<open>ConfigurationMetaNames\<close> are taken as
  the strings the library gives them.\<close>

definition specify_model_meta_properties ::
  "'w outside \<Rightarrow> json \<Rightarrow> string \<Rightarrow> 'w world \<Rightarrow> (py_error + json) \<times> 'w world" where
  "specify_model_meta_properties api client model_name =
     and_then (invoke api (GetUidByName ''do_22.1'')) (\<lambda>software_spec_uid.
     pure (Inr (JObj [(''name'', JStr model_name),
                      (''type'', JStr ''do-docplex_22.1''),
                      (''software_spec_uid'', software_spec_uid)])))"

definition publish :: "'w outside \<Rightarrow> json \<Rightarrow> string \<Rightarrow> string \<Rightarrow> 'w world \<Rightarrow> (py_error + json) \<times> 'w world" where
  "publish api client model_name model_python_path =
     and_then (zip_model api model_python_path model_name) (\<lambda>model_zip_path.
     and_then (specify_model_meta_properties api client model_name) (\<lambda>model_meta_props.
     and_then (invoke api (StoreModel model_zip_path model_meta_props)) (\<lambda>published_model.
     invoke api (GetModelId published_model))))"

definition deploy ::
  "'w outside \<Rightarrow> json \<Rightarrow> json \<Rightarrow> string \<Rightarrow> json \<Rightarrow> json \<Rightarrow> json option \<Rightarrow> 'w world
     \<Rightarrow> (py_error + json) \<times> 'w world" where
  "deploy api client published_model_id deployment_name tags description hardware_spec =
     (let hardware_spec' =
            (case hardware_spec of
               None \<Rightarrow> JObj [(''name'', JStr ''S''), (''num_nodes'', JNum 1)]
             | Some h \<Rightarrow> h);
          meta_data = JObj [(''name'', JStr deployment_name),
                            (''batch'', JObj []),
                            (''hardware_spec'', hardware_spec'),
                            (''description'', description),
                            (''tags'', tags)]
      in and_then (invoke api (DeploymentsCreate published_model_id meta_data)) (\<lambda>deployment_details.
         invoke api (DeploymentsGetId deployment_details)))"

text \<open>\<^verbatim>\<open>try: ... except Exception as e: logging.exception(e)\<close>: the deletions record the
  exception and return normally.\<close>

definition delete_previous_deployment :: "'w outside \<Rightarrow> json \<Rightarrow> 'w world \<Rightarrow> (py_error + unit) \<times> 'w world" where
  "delete_previous_deployment api client s =
     (case get_deployment_id s of
        Inl e \<Rightarrow> (Inr (), emit (LogException e) s)
      | Inr previous_deployed_model_id \<Rightarrow>
          (case invoke api (DeploymentsDelete previous_deployed_model_id) s of
             (Inl e, s') \<Rightarrow> (Inr (), emit (LogException e) s')
           | (Inr _, s') \<Rightarrow> (Inr (), s')))"

definition delete_previous_publication :: "'w outside \<Rightarrow> json \<Rightarrow> 'w world \<Rightarrow> (py_error + unit) \<times> 'w world" where
  "delete_previous_publication api client s =
     (case get_publish_id s of
        Inl e \<Rightarrow> (Inr (), emit (LogException e) s)
      | Inr previous_published_model_id \<Rightarrow>
          (case invoke api (RepositoryDelete previous_published_model_id) s of
             (Inl e, s') \<Rightarrow> (Inr (), emit (LogException e) s')
           | (Inr _, s') \<Rightarrow> (Inr (), s')))"

definition delete_previous_publication_and_deployment ::
  "'w outside \<Rightarrow> json \<Rightarrow> 'w world \<Rightarrow> (py_error + unit) \<times> 'w world" where
  "delete_previous_publication_and_deployment api client =
     and_then (delete_previous_deployment api client) (\<lambda>_.
     delete_previous_publication api client)"

text \<open>\<^verbatim>\<open>datetime.datetime.today().strftime('%Y-%m-%d')\<close>: the outside's clock answers with
  the date as a string.\<close>

definition date_text :: "json \<Rightarrow> string" where
  "date_text d = (case d of JStr t \<Rightarrow> t | _ \<Rightarrow> [])"

text \<open>Lines 167 to 171: what follows the optional deletion.\<close>

definition publish_and_deploy_new ::
  "'w outside \<Rightarrow> json \<Rightarrow> string \<Rightarrow> string \<Rightarrow> string \<Rightarrow> json \<Rightarrow> json \<Rightarrow> 'w world
     \<Rightarrow> (py_error + unit) \<times> 'w world" where
  "publish_and_deploy_new api client publication_name deployment_name model_python_path tags description =
     and_then (publish api client publication_name model_python_path) (\<lambda>published_model_id.
     and_then (store_publishing_id published_model_id) (\<lambda>_.
     and_then (deploy api client published_model_id deployment_name tags description None) (\<lambda>deployment_id.
     store_deployment_id deployment_id)))"

definition publish_and_deploy_model ::
  "'w outside \<Rightarrow> json \<Rightarrow> string \<Rightarrow> string \<Rightarrow> json \<Rightarrow> json \<Rightarrow> bool \<Rightarrow> 'w world
     \<Rightarrow> (py_error + unit) \<times> 'w world" where
  "publish_and_deploy_model api wml_credentials model_python_path model_name tags description delete_previous =
     and_then (get_wml_client api wml_credentials) (\<lambda>client.
     and_then (invoke api Today) (\<lambda>d1.
     (let model_publication_name_plus_date = model_name @ '' PUBLICATION- '' @ date_text d1 in
      and_then (invoke api Today) (\<lambda>d2.
      (let model_deployment_name_plus_date = model_name @ '' DEPLOYMENT - '' @ date_text d2 in
       and_then (if delete_previous then delete_previous_publication_and_deployment api client
                 else pure (Inr ())) (\<lambda>_.
       publish_and_deploy_new api client model_publication_name_plus_date
         model_deployment_name_plus_date model_python_path tags description))))))"

definition get_solve_parameters :: json where
  "get_solve_parameters =
     JObj [(''oaas.logAttachmentName'', JStr ''log.txt''),
           (''oaas.logTailEnabled'', JStr ''true''),
           (''oaas.timeLimit'', JNum 10),
           (''oaas.resultsFormat'', JStr ''JSON''),
           (''oaas.dumpZipName'', JBool True),
           (''oaas.dumpZipRules'',
              JStr (''(duration>=1000)'' @ [CHR 0x0A] @
                    replicate 33 (CHR '' '') @
                    ''or (&amp;(duration&lt;1000)(!(solveState.solveStatus=OPTIMAL_SOLUTION)))'' @ [CHR 0x0A] @
                    replicate 33 (CHR '' '') @
                    ''or (|(solveState.interruptionStatus=OUT_OF_MEMORY)'' @ [CHR 0x0A] @
                    replicate 32 (CHR '' '') @
                    ''(solveState.failureInfo.type=INFRASTRUCTURE))''))]"

section \<open>model_deploy.py\<close>

text \<open>The script; \<open>cwd\<close> is the directory \<^verbatim>\<open>Path('model.py').absolute()\<close> resolves against.\<close>

definition model_deploy_main :: "'w outside \<Rightarrow> string \<Rightarrow> 'w world \<Rightarrow> (py_error + unit) \<times> 'w world" where
  "model_deploy_main api cwd =
     and_then get_api_key (\<lambda>api_key.
     (let wml_credentials = JObj [(''url'', JStr ''https://eu-de.ml.cloud.ibm.com''), (''apikey'', api_key)];
          path_to_model = cwd @ ''/model.py'';
          model_name = ''CAR PRODUCTION''
      in publish_and_deploy_model api wml_credentials path_to_model model_name
           (JArr [JStr ''Sample'', JStr ''Opt'', JStr ''Cars'', JStr ''Produdction''])
           (JStr ''A sample case to optimize the number of cars to produce under capacity constraints.'')
           True))"

section \<open>model.py: reading the inputs\<close>

text \<open>\<^verbatim>\<open>env.get_input_stream(file_name)\<close> followed by \<^verbatim>\<open>pd.read_csv\<close>.\<close>

definition read_csv :: "string \<Rightarrow> 'w world \<Rightarrow> py_error + dataframe" where
  "read_csv file_name s =
     (case files s file_name of
        None \<Rightarrow> Inl (FileNotFoundError file_name)
      | Some f \<Rightarrow> csv_of f)"

text \<open>The loop of \<^verbatim>\<open>get_all_inputs\<close> over \<^verbatim>\<open>csv_files\<close>, with \<open>result\<close> as accumulator.\<close>

fun read_inputs ::
  "string list \<Rightarrow> (string \<times> dataframe) list \<Rightarrow> 'w world \<Rightarrow> py_error + (string \<times> dataframe) list" where
  "read_inputs [] result s = Inr result"
| "read_inputs (file_name # csv_files) result s =
     (case read_csv file_name s of
        Inl e \<Rightarrow> Inl e
      | Inr df \<Rightarrow>
          (case splitext file_name of
             (dataset_name, _) \<Rightarrow> read_inputs csv_files (AList.update dataset_name df result) s))"

definition get_all_inputs :: "'w world \<Rightarrow> py_error + (string \<times> dataframe) list" where
  "get_all_inputs s =
     (let csv_files = filter (\<lambda>file_name. snd (splitext file_name) = ''.csv'') (listing s)
      in read_inputs csv_files [] s)"

text \<open>\<^verbatim>\<open>inputs[name]\<close> on the dict of frames.\<close>

definition input_frame :: "(string \<times> dataframe) list \<Rightarrow> string \<Rightarrow> py_error + dataframe" where
  "input_frame inputs k = (case map_of inputs k of None \<Rightarrow> Inl (KeyError (Str k)) | Some df \<Rightarrow> Inr df)"

section \<open>model.py: the production-planning model\<close>

text \<open>Sequencing of expressions that may raise.\<close>

definition on_value :: "py_error + 'a \<Rightarrow> ('a \<Rightarrow> py_error + 'b) \<Rightarrow> py_error + 'b" where
  "on_value r f = (case r of Inl e \<Rightarrow> Inl e | Inr x \<Rightarrow> f x)"

subsection \<open>The pandas operations used\<close>

definition cell_at :: "(string \<times> cell) list \<Rightarrow> string \<Rightarrow> cell" where
  "cell_at row c = (case map_of row c of None \<Rightarrow> NaN | Some v \<Rightarrow> v)"

definition set_index :: "string \<Rightarrow> dataframe \<Rightarrow> py_error + dataframe" where
  "set_index c df =
     (if c \<in> set (columns df) then
        Inr \<lparr>columns = removeAll c (columns df),
             records = map (\<lambda>r. (cell_at (snd r) c, filter (\<lambda>kv. fst kv \<noteq> c) (snd r))) (records df)\<rparr>
      else Inl (KeyError (Str c)))"

definition index_values :: "dataframe \<Rightarrow> cell list" where
  "index_values df = map fst (records df)"

text \<open>\<^verbatim>\<open>df.loc[label, c]\<close>: a scalar when one row carries the label, a Series when several
  do.\<close>

datatype lookup = Scalar cell | Series "cell list"

definition loc :: "dataframe \<Rightarrow> cell \<Rightarrow> string \<Rightarrow> py_error + lookup" where
  "loc df label c =
     (case filter (\<lambda>r. fst r = label) (records df) of
        [] \<Rightarrow> Inl (KeyError label)
      | [r] \<Rightarrow> if c \<in> set (columns df) then Inr (Scalar (cell_at (snd r) c)) else Inl (KeyError (Str c))
      | rs \<Rightarrow> if c \<in> set (columns df) then Inr (Series (map (\<lambda>r. cell_at (snd r) c) rs))
              else Inl (KeyError (Str c)))"

text \<open>\<^verbatim>\<open>df.loc[label, c] = v\<close>, which adds the row and the column when they are missing.\<close>

definition set_loc :: "cell \<Rightarrow> string \<Rightarrow> cell \<Rightarrow> dataframe \<Rightarrow> dataframe" where
  "set_loc label c v df =
     \<lparr>columns = (if c \<in> set (columns df) then columns df else columns df @ [c]),
      records = (if label \<in> set (index_values df)
                 then map (\<lambda>r. if fst r = label then (fst r, AList.update c v (snd r)) else r) (records df)
                 else records df @ [(label, [(c, v)])])\<rparr>"

text \<open>\<^verbatim>\<open>df.to_csv(path, index=...)\<close> into the working directory. The file is described by
  the frame pandas reads back from the text written: with \<open>index\<close> the labels become a
  first, unnamed column; the labels read back are the row numbers.\<close>

definition csv_frame :: "bool \<Rightarrow> dataframe \<Rightarrow> dataframe" where
  "csv_frame index df =
     \<lparr>columns = (if index then ''Unnamed: 0'' # columns df else columns df),
      records = map (\<lambda>(i, (label, row)).
                  (Num (of_nat i), if index then (''Unnamed: 0'', label) # row else row))
                (enumerate 0 (records df))\<rparr>"

definition write_csv :: "string \<Rightarrow> bool \<Rightarrow> dataframe \<Rightarrow> 'w world \<Rightarrow> 'w world" where
  "write_csv path index df s =
     s\<lparr>files := (files s)(path \<mapsto> \<lparr>json_of = Inl NotJson, pickle_of = Inl UnpicklingError,
                                      csv_of = Inr (csv_frame index df)\<rparr>),
       listing := (if path \<in> set (listing s) then listing s else listing s @ [path])\<rparr>"

subsection \<open>The docplex operations used\<close>

text \<open>
  docplex is kept symbolic: a linear expression is the list of its terms (coefficient and
  variable name) in the order they were summed, a constraint is an expression compared with a
  number, and the model records what was added to it, in order. Every variable is continuous
  with lower bound 0. The right-hand side of a comparison and a coefficient must be numbers.
\<close>

type_synonym linexpr = "(rat \<times> string) list"

datatype sense = GE | LE

record lin_constraint =
  lhs :: linexpr
  sense :: sense
  rhs :: rat

datatype goal = Maximize | Minimize

record lp_model =
  model_name :: string
  variables :: "string list"
  constraints :: "lin_constraint list"
  kpis :: "(string \<times> linexpr) list"
  objective :: "(goal \<times> linexpr) option"
  solution :: "(string \<times> rat) list option"

definition new_model :: "string \<Rightarrow> lp_model" where
  "new_model n = \<lparr>model_name = n, variables = [], constraints = [], kpis = [],
                  objective = None, solution = None\<rparr>"

text \<open>\<open>fmt\<close> is Python's \<^verbatim>\<open>'%s' % key\<close>, the text of a key.\<close>

definition var_name :: "(cell \<Rightarrow> string) \<Rightarrow> string \<Rightarrow> cell \<Rightarrow> string" where
  "var_name fmt n key = n @ ''__'' @ fmt key"

text \<open>\<^verbatim>\<open>model.continuous_var_dict(keys, name, key_format='__%s')\<close>: one variable per key, and
  the dict built from the pairs of keys and variables.\<close>

definition continuous_var_dict ::
  "(cell \<Rightarrow> string) \<Rightarrow> cell list \<Rightarrow> string \<Rightarrow> lp_model \<Rightarrow> (cell \<times> string) list \<times> lp_model" where
  "continuous_var_dict fmt keys n model =
     (let vars = map (var_name fmt n) keys
      in (foldl (\<lambda>d kv. AList.update (fst kv) (snd kv) d) [] (zip keys vars),
          model\<lparr>variables := variables model @ vars\<rparr>))"

definition var_of :: "(cell \<times> string) list \<Rightarrow> cell \<Rightarrow> py_error + string" where
  "var_of d key = (case map_of d key of None \<Rightarrow> Inl (KeyError key) | Some x \<Rightarrow> Inr x)"

definition number :: "lookup \<Rightarrow> py_error + rat" where
  "number v = (case v of Scalar (Num q) \<Rightarrow> Inr q | _ \<Rightarrow> Inl DOcplexException)"

definition add_constraint :: "lin_constraint \<Rightarrow> lp_model \<Rightarrow> lp_model" where
  "add_constraint ct model = model\<lparr>constraints := constraints model @ [ct]\<rparr>"

definition add_kpi :: "linexpr \<Rightarrow> string \<Rightarrow> lp_model \<Rightarrow> lp_model" where
  "add_kpi expr publish_name model = model\<lparr>kpis := kpis model @ [(publish_name, expr)]\<rparr>"

definition maximize :: "linexpr \<Rightarrow> lp_model \<Rightarrow> lp_model" where
  "maximize expr model = model\<lparr>objective := Some (Maximize, expr)\<rparr>"

text \<open>The value of an expression under an assignment of the variables.\<close>

definition eval_expr :: "(string \<Rightarrow> rat) \<Rightarrow> linexpr \<Rightarrow> rat" where
  "eval_expr x expr = (\<Sum>t\<leftarrow>expr. fst t * x (snd t))"

definition holds :: "(string \<Rightarrow> rat) \<Rightarrow> lin_constraint \<Rightarrow> bool" where
  "holds x ct = (case sense ct of GE \<Rightarrow> rhs ct \<le> eval_expr x (lhs ct) | LE \<Rightarrow> eval_expr x (lhs ct) \<le> rhs ct)"

subsection \<open>create_base_model\<close>

text \<open>Lines 72 to 74, the loop over the keys of \<^verbatim>\<open>material_qty_to_produce\<close>.\<close>

fun add_demand_constraints ::
  "cell list \<Rightarrow> (cell \<times> string) list \<Rightarrow> (cell \<times> string) list \<Rightarrow> dataframe \<Rightarrow> lp_model
     \<Rightarrow> py_error + lp_model" where
  "add_demand_constraints [] qty slacks requirement model = Inr model"
| "add_demand_constraints (m # ms) qty slacks requirement model =
     on_value (var_of qty m) (\<lambda>q.
     on_value (var_of slacks m) (\<lambda>u.
     on_value (loc requirement m ''RequiredThisWeek'') (\<lambda>v.
     on_value (number v) (\<lambda>required.
     add_demand_constraints ms qty slacks requirement
       (add_constraint \<lparr>lhs = [(1, q), (1, u)], sense = GE, rhs = required\<rparr> model)))))"

text \<open>\<^verbatim>\<open>model.sum(requirement.loc[m, c] * material_qty_to_produce[m] for m in ...)\<close>.\<close>

fun weighted_sum ::
  "dataframe \<Rightarrow> string \<Rightarrow> (cell \<times> string) list \<Rightarrow> cell list \<Rightarrow> py_error + linexpr" where
  "weighted_sum requirement c qty [] = Inr []"
| "weighted_sum requirement c qty (m # ms) =
     on_value (loc requirement m c) (\<lambda>v.
     on_value (number v) (\<lambda>coefficient.
     on_value (var_of qty m) (\<lambda>q.
     on_value (weighted_sum requirement c qty ms) (\<lambda>terms.
     Inr ((coefficient, q) # terms)))))"

text \<open>\<^verbatim>\<open>model.sum(slacks[m] for m in material_qty_to_produce)\<close>.\<close>

fun plain_sum :: "(cell \<times> string) list \<Rightarrow> cell list \<Rightarrow> py_error + linexpr" where
  "plain_sum slacks [] = Inr []"
| "plain_sum slacks (m # ms) =
     on_value (var_of slacks m) (\<lambda>u.
     on_value (plain_sum slacks ms) (\<lambda>terms.
     Inr ((1, u) # terms)))"

definition create_base_model ::
  "(cell \<Rightarrow> string) \<Rightarrow> (string \<times> dataframe) list \<Rightarrow> py_error + lp_model" where
  "create_base_model fmt inputs =
     on_value (input_frame inputs ''ProductInfo'') (\<lambda>product_info.
     on_value (set_index ''ResourceName'' product_info) (\<lambda>requirement.
     on_value (input_frame inputs ''Availability'') (\<lambda>resources.
     on_value (set_index ''Resource'' resources) (\<lambda>availability.
     (let model = new_model ''car_production'';
          (material_qty_to_produce, model1) =
             continuous_var_dict fmt (index_values requirement) ''QtyToProduce'' model;
          (slacks, model2) =
             continuous_var_dict fmt (index_values requirement) ''UnfulfilledDemand'' model1;
          materials = map fst material_qty_to_produce
      in
      on_value (add_demand_constraints materials material_qty_to_produce slacks requirement model2) (\<lambda>model3.
      on_value (weighted_sum requirement ''AssemblyHours'' material_qty_to_produce materials) (\<lambda>assembly.
      on_value (loc availability (Str ''Assembly'') ''Capacity'') (\<lambda>v.
      on_value (number v) (\<lambda>assembly_capacity.
      (let model4 = add_constraint \<lparr>lhs = assembly, sense = LE, rhs = assembly_capacity\<rparr> model3 in
       on_value (weighted_sum requirement ''PaintingHours'' material_qty_to_produce materials) (\<lambda>painting.
       on_value (loc availability (Str ''Painting'') ''Capacity'') (\<lambda>v.
       on_value (number v) (\<lambda>painting_capacity.
       (let model5 = add_constraint \<lparr>lhs = painting, sense = LE, rhs = painting_capacity\<rparr> model4 in
        on_value (weighted_sum requirement ''ProfitMargin'' material_qty_to_produce materials) (\<lambda>projected_profit.
        on_value (plain_sum slacks materials) (\<lambda>unfulfilled_demand.
        Inr (maximize projected_profit
              (add_kpi unfulfilled_demand ''Unfulfilled Demand''
                (add_kpi projected_profit ''Projected Profit'' model5)))))))))))))))))))"

subsection \<open>solve_model, parse_solution, outputs_to_csv\<close>

text \<open>\<open>solver\<close> is \<^verbatim>\<open>model.solve()\<close>: it raises, finds no solution, or leaves in
  \<^verbatim>\<open>model.solution\<close> the variables of the solution with their values.\<close>

definition solve_model ::
  "(lp_model \<Rightarrow> py_error + (string \<times> rat) list option) \<Rightarrow> lp_model \<Rightarrow> py_error + lp_model" where
  "solve_model solver model =
     on_value (solver model) (\<lambda>found. Inr (model\<lparr>solution := found\<rparr>))"

text \<open>\<^verbatim>\<open>name.split('__')\<close>.\<close>

fun split_name :: "string \<Rightarrow> string list" where
  "split_name [] = [[]]"
| "split_name [a] = [[a]]"
| "split_name (a # b # rest) =
     (if a = CHR ''_'' \<and> b = CHR ''_'' then [] # split_name rest
      else (case split_name (b # rest) of [] \<Rightarrow> [[a]] | part # parts \<Rightarrow> (a # part) # parts))"

text \<open>Lines 127 to 129, the loop over the variables of the solution.\<close>

fun fill_solution :: "(string \<times> rat) list \<Rightarrow> dataframe \<Rightarrow> py_error + dataframe" where
  "fill_solution [] solution_df = Inr solution_df"
| "fill_solution (dvar # rest) solution_df =
     (case split_name (fst dvar) of
        [col, row] \<Rightarrow> fill_solution rest (set_loc (Str row) col (Num (snd dvar)) solution_df)
      | _ \<Rightarrow> Inl ValueError)"

text \<open>\<^verbatim>\<open>model.kpis_as_dict()\<close>: every KPI evaluated at the solution, a variable the solution
  does not mention being 0.\<close>

definition solution_value :: "(string \<times> rat) list \<Rightarrow> string \<Rightarrow> rat" where
  "solution_value found x = (case map_of found x of None \<Rightarrow> 0 | Some v \<Rightarrow> v)"

definition kpis_as_dict :: "lp_model \<Rightarrow> (string \<times> rat) list \<Rightarrow> (string \<times> rat) list" where
  "kpis_as_dict model found =
     map (\<lambda>kpi. (fst kpi, eval_expr (solution_value found) (snd kpi))) (kpis model)"

definition parse_solution :: "lp_model \<Rightarrow> py_error + (string \<times> dataframe) list" where
  "parse_solution model =
     (case solution model of
        None \<Rightarrow> Inl AttributeError
      | Some found \<Rightarrow>
          on_value (fill_solution found \<lparr>columns = [], records = []\<rparr>) (\<lambda>solution_df.
          (let kpi_dict = kpis_as_dict model found
           in Inr [(''solution'', solution_df),
                   (''kpis'', \<lparr>columns = map fst kpi_dict,
                               records = [(Num 0, map (\<lambda>kv. (fst kv, Num (snd kv))) kpi_dict)]\<rparr>)])))"

fun write_outputs :: "(string \<times> dataframe) list \<Rightarrow> 'w world \<Rightarrow> 'w world" where
  "write_outputs [] s = s"
| "write_outputs (out # rest) s =
     (let csv_file = fst out @ ''.csv''
      in write_outputs rest (write_csv csv_file False (snd out) (emit (Printed csv_file) s)))"

definition outputs_to_csv :: "(string \<times> dataframe) list \<Rightarrow> 'w world \<Rightarrow> (py_error + unit) \<times> 'w world" where
  "outputs_to_csv outputs s =
     (let s' = write_outputs outputs s
      in (Inr (), if length outputs = 0 then emit (LogWarning ''No outputs written'') s' else s'))"

text \<open>The script.\<close>

definition model_main ::
  "(cell \<Rightarrow> string) \<Rightarrow> (lp_model \<Rightarrow> py_error + (string \<times> rat) list option) \<Rightarrow> 'w world
     \<Rightarrow> (py_error + unit) \<times> 'w world" where
  "model_main fmt solver =
     and_then (\<lambda>s. (get_all_inputs s, s)) (\<lambda>input_files.
     and_then (pure (create_base_model fmt input_files)) (\<lambda>model_formulation.
     and_then (pure (solve_model solver model_formulation)) (\<lambda>solved_model.
     and_then (pure (parse_solution solved_model)) (\<lambda>output_files.
     outputs_to_csv output_files))))"

section \<open>model_execute.py\<close>

definition execute_get_deployment_id :: "'w world \<Rightarrow> py_error + json" where
  "execute_get_deployment_id s =
     (case load_from_disk settings_path s of
        Inl e \<Rightarrow> Inl e
      | Inr settings \<Rightarrow> subscript settings ''deployment_id'')"

text \<open>A chain of subscripts, left to right.\<close>

fun subscripts :: "json \<Rightarrow> string list \<Rightarrow> py_error + json" where
  "subscripts v [] = Inr v"
| "subscripts v (k # ks) = (case subscript v k of Inl e \<Rightarrow> Inl e | Inr v' \<Rightarrow> subscripts v' ks)"

text \<open>What a \<^verbatim>\<open>for\<close> over a value visits: the items of a list, the keys of a dict, the
  characters of a string.\<close>

fun py_iter :: "json \<Rightarrow> py_error + json list" where
  "py_iter (JArr xs) = Inr xs"
| "py_iter (JObj kvs) = Inr (map (\<lambda>kv. JStr (fst kv)) kvs)"
| "py_iter (JStr t) = Inr (map (\<lambda>c. JStr [c]) t)"
| "py_iter _ = Inl TypeError"

text \<open>\<^verbatim>\<open>next(output for output in ... if output["id"] == "solution.csv")\<close>.\<close>

fun next_solution :: "json list \<Rightarrow> py_error + json" where
  "next_solution [] = Inl StopIteration"
| "next_solution (output # rest) =
     (case subscript output ''id'' of
        Inl e \<Rightarrow> Inl e
      | Inr i \<Rightarrow> if i = JStr ''solution.csv'' then Inr output else next_solution rest)"

text \<open>\<open>new_frame\<close> is \<^verbatim>\<open>pd.DataFrame(data=..., columns=...)\<close>, a function of its two arguments
  that belongs to pandas; the globals \<^verbatim>\<open>client\<close> and \<^verbatim>\<open>job_id\<close> are arguments.\<close>

definition process_results ::
  "'w outside \<Rightarrow> (json \<Rightarrow> json \<Rightarrow> py_error + dataframe) \<Rightarrow> json \<Rightarrow> 'w world
     \<Rightarrow> (py_error + unit) \<times> 'w world" where
  "process_results api new_frame job_id =
     and_then (invoke api (GetJobDetails job_id)) (\<lambda>job_details_do.
     and_then (pure (subscripts job_details_do
        [''entity'', ''decision_optimization'', ''solve_state'', ''details'', ''KPI.Projected Profit''])) (\<lambda>kpi.
     and_then (pure (subscripts job_details_do [''entity'', ''decision_optimization'', ''output_data''])) (\<lambda>outputs.
     and_then (pure (py_iter outputs)) (\<lambda>output_list.
     and_then (pure (next_solution output_list)) (\<lambda>decisions.
     and_then (pure (subscript decisions ''values'')) (\<lambda>vals.
     and_then (pure (subscript decisions ''fields'')) (\<lambda>fields.
     and_then (pure (new_frame vals fields)) (\<lambda>decision_df.
     (\<lambda>s. (Inr (), emit (LogInfo kpi decision_df) (write_csv ''solution.csv'' True decision_df s)))))))))))"

definition wait_longer :: "'w outside \<Rightarrow> int \<Rightarrow> 'w world \<Rightarrow> (py_error + int) \<times> 'w world" where
  "wait_longer api waited_for_n_seconds =
     and_then (invoke api (Sleep 10)) (\<lambda>_.
     pure (Inr (waited_for_n_seconds + 10)))"

text \<open>The keys are the client's \<^verbatim>\<open>DecisionOptimizationMetaNames.INPUT_DATA\<close> and
  \<^verbatim>\<open>OUTPUT_DATA\<close>, taken as the strings the library gives them.\<close>

definition INPUT_DATA :: string where
  "INPUT_DATA = ''input_data''"

definition OUTPUT_DATA :: string where
  "OUTPUT_DATA = ''output_data''"

definition define_job_payload :: "(string \<times> dataframe) list \<Rightarrow> py_error + payload" where
  "define_job_payload inputs =
     (case input_frame inputs ''Availability'' of
        Inl e \<Rightarrow> Inl e
      | Inr availability \<Rightarrow>
          (case input_frame inputs ''ProductInfo'' of
             Inl e \<Rightarrow> Inl e
           | Inr product_info \<Rightarrow>
               Inr [(INPUT_DATA,
                       [\<lparr>entry_id = ''Availability.csv'', entry_values = Some availability\<rparr>,
                        \<lparr>entry_id = ''ProductInfo.csv'', entry_values = Some product_info\<rparr>]),
                    (OUTPUT_DATA,
                       [\<lparr>entry_id = ''.*.csv'', entry_values = None\<rparr>])]))"

text \<open>\<^verbatim>\<open>client.deployments.get_job_status(job_id).get('state')\<close>.\<close>

definition job_state :: "'w outside \<Rightarrow> json \<Rightarrow> 'w world \<Rightarrow> (py_error + json) \<times> 'w world" where
  "job_state api job_id =
     and_then (invoke api (GetJobStatus job_id)) (\<lambda>status.
     pure (py_get status ''state''))"

text \<open>The \<^verbatim>\<open>while\<close> of lines 74 and 75: the state is polled first, the bound on
  \<^verbatim>\<open>elapsed_time\<close> is read second.\<close>

function poll_job :: "'w outside \<Rightarrow> json \<Rightarrow> int \<Rightarrow> 'w world \<Rightarrow> (py_error + int) \<times> 'w world" where
  "poll_job api job_id elapsed_time s =
     (case job_state api job_id s of
        (Inl e, s1) \<Rightarrow> (Inl e, s1)
      | (Inr state, s1) \<Rightarrow>
          if state \<noteq> JStr ''completed'' \<and> elapsed_time < 300 then
            (case wait_longer api elapsed_time s1 of
               (Inl e, s2) \<Rightarrow> (Inl e, s2)
             | (Inr elapsed_time', s2) \<Rightarrow> poll_job api job_id elapsed_time' s2)
          else (Inr elapsed_time, s1))"
  by pat_completeness auto
termination
  by (relation "measure (\<lambda>(api, job_id, elapsed_time, s). nat (300 - elapsed_time))")
     (auto simp: wait_longer_def and_then_def pure_def split: prod.splits sum.splits)

text \<open>Lines 76 to 79: the fresh query and the two branches.\<close>

definition not_completed_msg :: string where
  "not_completed_msg = ''Job hasn't completed successfully in 5 minutes.''"

definition report_job ::
  "'w outside \<Rightarrow> (json \<Rightarrow> json \<Rightarrow> py_error + dataframe) \<Rightarrow> json \<Rightarrow> 'w world
     \<Rightarrow> (py_error + unit) \<times> 'w world" where
  "report_job api new_frame job_id =
     and_then (job_state api job_id) (\<lambda>state.
     if state = JStr ''completed'' then process_results api new_frame job_id
     else (\<lambda>s. (Inr (), emit (Printed not_completed_msg) s)))"

text \<open>The script, with the value bound to \<^verbatim>\<open>solve_parameters\<close> on line 57 as an
  argument.\<close>

definition model_execute_with ::
  "'w outside \<Rightarrow> (json \<Rightarrow> json \<Rightarrow> py_error + dataframe) \<Rightarrow> json \<Rightarrow> 'w world
     \<Rightarrow> (py_error + unit) \<times> 'w world" where
  "model_execute_with api new_frame params =
     and_then (\<lambda>s. (get_all_inputs s, s)) (\<lambda>inputs.
     (let solve_parameters = params in
      and_then get_api_key (\<lambda>api_key.
      (let wml_credentials = JObj [(''url'', JStr ''https://eu-de.ml.cloud.ibm.com''), (''apikey'', api_key)] in
       and_then (get_wml_client api wml_credentials) (\<lambda>client.
       and_then (\<lambda>s. (execute_get_deployment_id s, s)) (\<lambda>deployment_id.
       and_then (pure (define_job_payload inputs)) (\<lambda>job_payload_ref.
       and_then (invoke api (CreateJob deployment_id job_payload_ref)) (\<lambda>job.
       and_then (invoke api (GetJobUid job)) (\<lambda>job_id.
       and_then (poll_job api job_id 0) (\<lambda>elapsed_time.
       report_job api new_frame job_id))))))))))"

definition model_execute_main ::
  "'w outside \<Rightarrow> (json \<Rightarrow> json \<Rightarrow> py_error + dataframe) \<Rightarrow> 'w world \<Rightarrow> (py_error + unit) \<times> 'w world" where
  "model_execute_main api new_frame = model_execute_with api new_frame get_solve_parameters"

section \<open>Vocabulary of the properties and example worlds\<close>

text \<open>What the three getters of \<^verbatim>\<open>utils.py\<close> promise about the file at \<open>path\<close> and the
  key \<open>key\<close>. A file is unusable for a key when its text is not JSON or is a JSON object
  without the key; it stores a value under the key when it holds a JSON object with it.\<close>

definition raises_file_not_found :: "py_error + json \<Rightarrow> bool" where
  "raises_file_not_found r = (case r of Inl (FileNotFoundError _) \<Rightarrow> True | _ \<Rightarrow> False)"

definition raises_key_error :: "py_error + json \<Rightarrow> bool" where
  "raises_key_error r = (case r of Inl (KeyError _) \<Rightarrow> True | _ \<Rightarrow> False)"

definition unusable :: "string \<Rightarrow> disk_file \<Rightarrow> bool" where
  "unusable key f =
     (case json_of f of
        Inl failure \<Rightarrow> failure = NotJson
      | Inr (JObj kvs) \<Rightarrow> map_of kvs key = None
      | Inr _ \<Rightarrow> False)"

definition stored :: "string \<Rightarrow> disk_file \<Rightarrow> json option" where
  "stored key f = (case json_of f of Inr (JObj kvs) \<Rightarrow> map_of kvs key | _ \<Rightarrow> None)"

definition getter_contract ::
  "('w world \<Rightarrow> (py_error + json) \<times> 'w world) \<Rightarrow> string \<Rightarrow> string \<Rightarrow> string \<Rightarrow> string \<Rightarrow> 'w world \<Rightarrow> bool" where
  "getter_contract getter path key missing_msg structure_msg s \<longleftrightarrow>
     (raises_file_not_found (fst (getter s)) \<longleftrightarrow> files s path = None) \<and>
     (raises_file_not_found (fst (getter s)) \<longrightarrow> fst (getter s) = Inl (FileNotFoundError missing_msg)) \<and>
     (raises_key_error (fst (getter s)) \<longleftrightarrow> (\<exists>f. files s path = Some f \<and> unusable key f)) \<and>
     (raises_key_error (fst (getter s)) \<longrightarrow> fst (getter s) = Inl (KeyError (Str structure_msg))) \<and>
     (\<forall>f v. files s path = Some f \<and> stored key f = Some v \<longrightarrow> getter s = (Inr v, s))"

text \<open>The value \<^verbatim>\<open>settings.json\<close> holds under a key, when it holds a JSON object.\<close>

definition settings_entry :: "'w world \<Rightarrow> string \<Rightarrow> json option" where
  "settings_entry s k =
     (case files s settings_path of
        None \<Rightarrow> None
      | Some f \<Rightarrow> stored k f)"

definition json_file :: "json \<Rightarrow> disk_file" where
  "json_file v = \<lparr>json_of = Inr v, pickle_of = Inl UnpicklingError, csv_of = Inl ParserError\<rparr>"

text \<open>A project whose two JSON files are filled in, one whose two files hold the JSON text
  \<^verbatim>\<open>[]\<close>, and one whose \<^verbatim>\<open>auth.json\<close> is not UTF-8 text.\<close>

definition configured :: "unit world" where
  "configured =
     \<lparr>files = [auth_path \<mapsto> json_file (JObj [(''api_key'', JStr ''secret'')]),
               settings_path \<mapsto> json_file (JObj [(''project_id'', JStr ''p1''),
                                                    (''space_uid'', JStr ''s1''),
                                                    (''deployment_id'', JStr ''d0''),
                                                    (''publishing_id'', JStr ''m0'')])],
      listing = [], remote = (), events = []\<rparr>"

definition arrays_in_files :: "unit world" where
  "arrays_in_files =
     \<lparr>files = [auth_path \<mapsto> json_file (JArr []), settings_path \<mapsto> json_file (JArr [])],
      listing = [], remote = (), events = []\<rparr>"

definition auth_not_text :: "unit world" where
  "auth_not_text =
     \<lparr>files = [auth_path \<mapsto> \<lparr>json_of = Inl NotUtf8, pickle_of = Inl UnpicklingError,
                                  csv_of = Inl UnicodeDecodeError\<rparr>],
      listing = [], remote = (), events = []\<rparr>"



text \<open>A function only adds events, and every event it adds satisfies \<open>P\<close>.\<close>

definition appends :: "(event \<Rightarrow> bool) \<Rightarrow> ('w world \<Rightarrow> 'r \<times> 'w world) \<Rightarrow> bool" where
  "appends P f \<longleftrightarrow> (\<forall>s. \<exists>es. events (snd (f s)) = events s @ es \<and> list_all P es)"



text \<open>The durations of the sleeps among some events, in order.\<close>

fun slept :: "event list \<Rightarrow> nat list" where
  "slept [] = []"
| "slept (Called (Sleep n) # es) = n # slept es"
| "slept (_ # es) = slept es"

text \<open>An outside whose job completes once two sleeps have passed, and a world that polls it.\<close>

definition slow :: "nat outside" where
  "slow c w =
     (case c of
        GetJobStatus _ \<Rightarrow>
          (Inr (JObj [(''state'', JStr (if 2 \<le> w then ''completed'' else ''running''))]), w)
      | Sleep _ \<Rightarrow> (Inr JNull, Suc w)
      | _ \<Rightarrow> (Inr (JStr ''ok''), w))"

definition polling :: "nat \<Rightarrow> event list \<Rightarrow> nat world" where
  "polling k es = \<lparr>files = Map.empty, listing = [], remote = k, events = es\<rparr>"

text \<open>An outside that cannot be reached, one that refuses every job, a pandas constructor that
  rejects its data, and a working directory with the two inputs of the sample.\<close>

definition unreachable :: "nat outside" where
  "unreachable c w = (Inl (ApiError ''connection lost''), w)"

definition no_frame :: "json \<Rightarrow> json \<Rightarrow> py_error + dataframe" where
  "no_frame vals cols = Inl ValueError"

definition capacity :: dataframe where
  "capacity = \<lparr>columns = [''Resource'', ''Capacity''],
                records = [(Num 0, [(''Resource'', Str ''Assembly''), (''Capacity'', Num 100)]),
                           (Num 1, [(''Resource'', Str ''Painting''), (''Capacity'', Num 80)])]\<rparr>"

definition products :: dataframe where
  "products = \<lparr>columns = [''ResourceName'', ''RequiredThisWeek'', ''AssemblyHours'', ''PaintingHours'', ''ProfitMargin''],
                records = [(Num 0, [(''ResourceName'', Str ''CAR1''), (''RequiredThisWeek'', Num 10),
                                    (''AssemblyHours'', Num 2), (''PaintingHours'', Num 1), (''ProfitMargin'', Num 300)]),
                           (Num 1, [(''ResourceName'', Str ''CAR2''), (''RequiredThisWeek'', Num 5),
                                    (''AssemblyHours'', Num 3), (''PaintingHours'', Num 2), (''ProfitMargin'', Num 500)])]\<rparr>"

definition csv_file :: "dataframe \<Rightarrow> disk_file" where
  "csv_file df = \<lparr>json_of = Inl NotJson, pickle_of = Inl UnpicklingError, csv_of = Inr df\<rparr>"

definition ready :: "unit world" where
  "ready = configured
     \<lparr>files := (files configured)(''Availability.csv'' \<mapsto> csv_file capacity,
                                    ''ProductInfo.csv'' \<mapsto> csv_file products),
      listing := [''Availability.csv'', ''model.py'', ''ProductInfo.csv'']\<rparr>"

definition refusing :: "unit outside" where
  "refusing c w =
     (case c of
        CreateJob _ _ \<Rightarrow> (Inl (ApiError ''quota exceeded''), w)
      | _ \<Rightarrow> (Inr (JStr ''ok''), w))"

text \<open>The production plan in closed form, for a list of materials and their figures: per
  material the demand constraint, then the assembly and the painting capacity constraints, the
  two KPIs, and the profit to maximise.\<close>

definition planned ::
  "(cell \<Rightarrow> string) \<Rightarrow> cell list \<Rightarrow> (cell \<Rightarrow> rat) \<Rightarrow> (cell \<Rightarrow> rat) \<Rightarrow> (cell \<Rightarrow> rat) \<Rightarrow> (cell \<Rightarrow> rat)
     \<Rightarrow> rat \<Rightarrow> rat \<Rightarrow> lp_model" where
  "planned fmt materials required assembly_hours painting_hours profit_margin
     assembly_capacity painting_capacity =
     \<lparr>model_name = ''car_production'',
      variables = map (var_name fmt ''QtyToProduce'') materials @
                  map (var_name fmt ''UnfulfilledDemand'') materials,
      constraints =
        map (\<lambda>m. \<lparr>lhs = [(1, var_name fmt ''QtyToProduce'' m), (1, var_name fmt ''UnfulfilledDemand'' m)],
                   sense = GE, rhs = required m\<rparr>) materials @
        [\<lparr>lhs = map (\<lambda>m. (assembly_hours m, var_name fmt ''QtyToProduce'' m)) materials,
          sense = LE, rhs = assembly_capacity\<rparr>,
         \<lparr>lhs = map (\<lambda>m. (painting_hours m, var_name fmt ''QtyToProduce'' m)) materials,
          sense = LE, rhs = painting_capacity\<rparr>],
      kpis = [(''Projected Profit'', map (\<lambda>m. (profit_margin m, var_name fmt ''QtyToProduce'' m)) materials),
              (''Unfulfilled Demand'', map (\<lambda>m. (1, var_name fmt ''UnfulfilledDemand'' m)) materials)],
      objective = Some (Maximize, map (\<lambda>m. (profit_margin m, var_name fmt ''QtyToProduce'' m)) materials),
      solution = None\<rparr>"

text \<open>The inputs hold the two tables: \<^verbatim>\<open>ProductInfo\<close>, indexed by \<^verbatim>\<open>ResourceName\<close> with one row
  per material and the four figures of every material in its columns, and \<^verbatim>\<open>Availability\<close>,
  indexed by \<^verbatim>\<open>Resource\<close>, with the capacity of \<^verbatim>\<open>Assembly\<close> and of \<^verbatim>\<open>Painting\<close>.\<close>

definition tabulated ::
  "(string \<times> dataframe) list \<Rightarrow> dataframe \<Rightarrow> dataframe \<Rightarrow> (cell \<Rightarrow> rat) \<Rightarrow> (cell \<Rightarrow> rat)
     \<Rightarrow> (cell \<Rightarrow> rat) \<Rightarrow> (cell \<Rightarrow> rat) \<Rightarrow> rat \<Rightarrow> rat \<Rightarrow> bool" where
  "tabulated inputs requirement availability required assembly_hours painting_hours profit_margin
     assembly_capacity painting_capacity \<longleftrightarrow>
     on_value (input_frame inputs ''ProductInfo'') (set_index ''ResourceName'') = Inr requirement \<and>
     on_value (input_frame inputs ''Availability'') (set_index ''Resource'') = Inr availability \<and>
     distinct (index_values requirement) \<and>
     (\<forall>m \<in> set (index_values requirement).
        loc requirement m ''RequiredThisWeek'' = Inr (Scalar (Num (required m))) \<and>
        loc requirement m ''AssemblyHours'' = Inr (Scalar (Num (assembly_hours m))) \<and>
        loc requirement m ''PaintingHours'' = Inr (Scalar (Num (painting_hours m))) \<and>
        loc requirement m ''ProfitMargin'' = Inr (Scalar (Num (profit_margin m)))) \<and>
     loc availability (Str ''Assembly'') ''Capacity'' = Inr (Scalar (Num assembly_capacity)) \<and>
     loc availability (Str ''Painting'') ''Capacity'' = Inr (Scalar (Num painting_capacity))"

text \<open>The sample's two tables as inputs, a rendering of string keys, and the figures of its two
  cars.\<close>

definition label_text :: "cell \<Rightarrow> string" where
  "label_text c = (case c of Str t \<Rightarrow> t | _ \<Rightarrow> ''?'')"

definition sample_inputs :: "(string \<times> dataframe) list" where
  "sample_inputs = [(''Availability'', capacity), (''ProductInfo'', products)]"

definition indexed_products :: dataframe where
  "indexed_products =
     \<lparr>columns = [''RequiredThisWeek'', ''AssemblyHours'', ''PaintingHours'', ''ProfitMargin''],
      records = [(Str ''CAR1'', [(''RequiredThisWeek'', Num 10), (''AssemblyHours'', Num 2),
                                 (''PaintingHours'', Num 1), (''ProfitMargin'', Num 300)]),
                 (Str ''CAR2'', [(''RequiredThisWeek'', Num 5), (''AssemblyHours'', Num 3),
                                 (''PaintingHours'', Num 2), (''ProfitMargin'', Num 500)])]\<rparr>"

definition indexed_capacity :: dataframe where
  "indexed_capacity =
     \<lparr>columns = [''Capacity''],
      records = [(Str ''Assembly'', [(''Capacity'', Num 100)]),
                 (Str ''Painting'', [(''Capacity'', Num 80)])]\<rparr>"

definition per_car :: "rat \<Rightarrow> rat \<Rightarrow> cell \<Rightarrow> rat" where
  "per_car a b m = (if m = Str ''CAR1'' then a else b)"

text \<open>A solver that answers with 20 cars of the first kind and 5 missing of the second.\<close>

definition sample_solver :: "lp_model \<Rightarrow> py_error + (string \<times> rat) list option" where
  "sample_solver model = Inr (Some [(''QtyToProduce__CAR1'', 20), (''UnfulfilledDemand__CAR2'', 5)])"

section \<open>Properties of utils.py\<close>

lemma load_key_auth:
  "load_key auth_path k s =
     (case files s auth_path of
        None \<Rightarrow> Inl (FileNotFoundError auth_path)
      | Some f \<Rightarrow> (case json_of f of Inl failure \<Rightarrow> Inl (json_error failure) | Inr v \<Rightarrow> subscript v k))"
  by (simp add: load_key_def load_from_disk_def last_chars_def auth_path_def split: option.splits sum.splits)

lemma load_key_settings:
  "load_key settings_path k s =
     (case files s settings_path of
        None \<Rightarrow> Inl (FileNotFoundError settings_path)
      | Some f \<Rightarrow> (case json_of f of Inl failure \<Rightarrow> Inl (json_error failure) | Inr v \<Rightarrow> subscript v k))"
  by (simp add: load_key_def load_from_disk_def last_chars_def settings_path_def split: option.splits sum.splits)

text \<open>
  What the getters do. Each raises FileNotFoundError, with its file-missing message, exactly
  when its file does not exist; it raises KeyError, with its file-structure message, exactly
  when the file exists and its text is not JSON or is a JSON object without the key; when the
  file holds a JSON object with the key it returns the value stored there and changes nothing.
  Every other exception of the load or of the subscript passes the two \<^verbatim>\<open>except\<close> clauses.
\<close>

lemma getter_pattern:
  fixes getter :: "'w world \<Rightarrow> (py_error + json) \<times> 'w world"
  assumes load: "\<And>s :: 'w world. load_key path key s =
     (case files s path of
        None \<Rightarrow> Inl (FileNotFoundError path)
      | Some f \<Rightarrow> (case json_of f of Inl failure \<Rightarrow> Inl (json_error failure) | Inr v \<Rightarrow> subscript v key))"
    and getter: "\<And>s. getter s =
     (case load_key path key s of
        Inl e \<Rightarrow> reraise missing_msg structure_msg e s
      | Inr x \<Rightarrow> (Inr x, s))"
  shows "getter_contract getter path key missing_msg structure_msg s"
proof (cases "files s path")
  case None
  then show ?thesis
    by (simp add: getter_contract_def getter load raises_file_not_found_def raises_key_error_def)
next
  case (Some f)
  show ?thesis
  proof (cases "json_of f")
    case (Inl failure)
    with Some show ?thesis
      by (cases failure)
         (simp_all add: getter_contract_def getter load raises_file_not_found_def
            raises_key_error_def unusable_def stored_def)
  next
    case (Inr v)
    with Some show ?thesis
      by (cases v)
         (simp_all add: getter_contract_def getter load raises_file_not_found_def
            raises_key_error_def unusable_def stored_def split: option.splits)
  qed
qed

lemma getters_keep_contract:
  "getter_contract get_api_key auth_path ''api_key'' auth_missing_msg auth_structure_msg s \<and>
   getter_contract get_project_id settings_path ''project_id'' settings_missing_msg project_structure_msg s \<and>
   getter_contract get_space_uid settings_path ''space_uid'' settings_missing_msg space_structure_msg s"
  by (intro conjI getter_pattern)
     (simp_all only: load_key_auth load_key_settings get_api_key_def get_project_id_def
        get_space_uid_def)

text \<open>
  C5. The claim fails on the code where a file exists and can be loaded as JSON but is not an
  object: with the text \<^verbatim>\<open>[]\<close> in \<^verbatim>\<open>auth.json\<close> the file has no key \<^verbatim>\<open>api_key\<close>, the
  subscript raises TypeError, and \<^verbatim>\<open>get_api_key\<close> lets it through in place of the KeyError
  with the file-structure message; \<^verbatim>\<open>get_project_id\<close> and \<^verbatim>\<open>get_space_uid\<close> do the same
  over \<^verbatim>\<open>settings.json\<close>. A file that is not UTF-8 text, which is not valid JSON either,
  likewise ends in UnicodeDecodeError.
\<close>

theorem getters_let_type_error_through:
  "files arrays_in_files auth_path = Some (json_file (JArr [])) \<and>
   files arrays_in_files settings_path = Some (json_file (JArr [])) \<and>
   get_api_key arrays_in_files = (Inl TypeError, arrays_in_files) \<and>
   get_project_id arrays_in_files = (Inl TypeError, arrays_in_files) \<and>
   get_space_uid arrays_in_files = (Inl TypeError, arrays_in_files) \<and>
   get_api_key auth_not_text = (Inl UnicodeDecodeError, auth_not_text)"
proof -
  have held: "files arrays_in_files auth_path = Some (json_file (JArr []))"
    "files arrays_in_files settings_path = Some (json_file (JArr []))"
    by (simp_all add: arrays_in_files_def auth_path_def settings_path_def)
  have bytes: "files auth_not_text auth_path =
      Some \<lparr>json_of = Inl NotUtf8, pickle_of = Inl UnpicklingError, csv_of = Inl UnicodeDecodeError\<rparr>"
    by (simp add: auth_not_text_def)
  show ?thesis
    by (simp add: held bytes get_api_key_def get_project_id_def get_space_uid_def
        load_key_auth load_key_settings json_file_def)
qed

lemma load_settings:
  "load_from_disk settings_path s =
     (case files s settings_path of
        None \<Rightarrow> Inl (FileNotFoundError settings_path)
      | Some f \<Rightarrow> (case json_of f of Inl failure \<Rightarrow> Inl (json_error failure) | Inr v \<Rightarrow> Inr v))"
  by (simp add: load_from_disk_def last_chars_def settings_path_def split: option.splits)

lemma splitext_settings: "splitext settings_path = (''settings'', ''.json'')"
  by (simp add: splitext_def settings_path_def Let_def)

text \<open>Reading the settings, setting one key and writing them back touches that key of
  \<^verbatim>\<open>settings.json\<close> and nothing else in the world; when a step raises, nothing is written.\<close>

lemma store_key_frame:
  fixes s :: "'w world"
  assumes store: "store s =
     (case get_settings s of
        Inl e \<Rightarrow> (Inl e, s)
      | Inr (settings, path) \<Rightarrow>
          (case setitem settings key v of
             Inl e \<Rightarrow> (Inl e, s)
           | Inr settings' \<Rightarrow> write_to_disk settings' path s))"
  shows "(\<forall>k. k \<noteq> key \<longrightarrow> settings_entry (snd (store s)) k = settings_entry s k) \<and>
         (\<forall>p. p \<noteq> settings_path \<longrightarrow> files (snd (store s)) p = files s p) \<and>
         (fst (store s) = Inr () \<longrightarrow> settings_entry (snd (store s)) key = Some v) \<and>
         (fst (store s) \<noteq> Inr () \<longrightarrow> snd (store s) = s) \<and>
         remote (snd (store s)) = remote s \<and> events (snd (store s)) = events s \<and>
         listing (snd (store s)) = listing s"
proof (cases "files s settings_path")
  case None
  then show ?thesis
    by (simp add: store get_settings_def load_settings)
next
  case (Some f)
  show ?thesis
  proof (cases "json_of f")
    case (Inl failure)
    with Some show ?thesis
      by (simp add: store get_settings_def load_settings)
  next
    case (Inr j)
    with Some show ?thesis
      by (cases j)
         (simp_all add: store get_settings_def load_settings write_to_disk_def splitext_settings
            settings_entry_def stored_def update_conv')
  qed
qed

lemma configured_files:
  "files configured settings_path =
     Some (json_file (JObj [(''project_id'', JStr ''p1''), (''space_uid'', JStr ''s1''),
                            (''deployment_id'', JStr ''d0''), (''publishing_id'', JStr ''m0'')]))"
  "files configured auth_path = Some (json_file (JObj [(''api_key'', JStr ''secret'')]))"
  by (simp_all add: configured_def auth_path_def settings_path_def)

text \<open>
  C9. \<^verbatim>\<open>store_deployment_id\<close> and \<^verbatim>\<open>store_publishing_id\<close> leave every key of
  \<^verbatim>\<open>settings.json\<close> other than their own (\<^verbatim>\<open>deployment_id\<close>, respectively
  \<^verbatim>\<open>publishing_id\<close>) with the value it had, whatever the file held before, and leave every
  other file as it was; when they return, their own key holds the new identifier.
\<close>

theorem store_ids_keep_other_settings:
  "(\<forall>k. k \<noteq> ''deployment_id'' \<longrightarrow>
        settings_entry (snd (store_deployment_id v s)) k = settings_entry s k) \<and>
   (\<forall>k. k \<noteq> ''publishing_id'' \<longrightarrow>
        settings_entry (snd (store_publishing_id v s)) k = settings_entry s k) \<and>
   (\<forall>p. p \<noteq> settings_path \<longrightarrow>
        files (snd (store_deployment_id v s)) p = files s p \<and>
        files (snd (store_publishing_id v s)) p = files s p) \<and>
   (fst (store_deployment_id v s) = Inr () \<longrightarrow>
        settings_entry (snd (store_deployment_id v s)) ''deployment_id'' = Some v) \<and>
   (fst (store_publishing_id v s) = Inr () \<longrightarrow>
        settings_entry (snd (store_publishing_id v s)) ''publishing_id'' = Some v)"
  using store_key_frame [of "store_deployment_id v" s "''deployment_id''" v]
        store_key_frame [of "store_publishing_id v" s "''publishing_id''" v]
  by (simp add: store_deployment_id_def store_publishing_id_def)

theorem store_ids_keep_other_settings_witness:
  "fst (store_deployment_id (JStr ''d1'') configured) = Inr () \<and>
   settings_entry (snd (store_deployment_id (JStr ''d1'') configured)) ''deployment_id'' = Some (JStr ''d1'') \<and>
   settings_entry (snd (store_deployment_id (JStr ''d1'') configured)) ''publishing_id'' = Some (JStr ''m0'') \<and>
   fst (store_publishing_id (JStr ''m1'') configured) = Inr () \<and>
   settings_entry (snd (store_publishing_id (JStr ''m1'') configured)) ''publishing_id'' = Some (JStr ''m1'') \<and>
   settings_entry (snd (store_publishing_id (JStr ''m1'') configured)) ''deployment_id'' = Some (JStr ''d0'') \<and>
   files (snd (store_deployment_id (JStr ''d1'') configured)) auth_path = files configured auth_path"
proof -
  have ok: "fst (store_deployment_id (JStr ''d1'') configured) = Inr ()"
           "fst (store_publishing_id (JStr ''m1'') configured) = Inr ()"
    by (simp_all add: store_deployment_id_def store_publishing_id_def get_settings_def
        load_settings configured_files json_file_def write_to_disk_def splitext_settings)
  have before: "settings_entry configured ''publishing_id'' = Some (JStr ''m0'')"
               "settings_entry configured ''deployment_id'' = Some (JStr ''d0'')"
    by (simp_all add: settings_entry_def stored_def configured_files json_file_def)
  have "auth_path \<noteq> settings_path"
    by (simp add: auth_path_def settings_path_def)
  with ok before show ?thesis
    using store_ids_keep_other_settings [of "JStr ''d1''" configured]
          store_ids_keep_other_settings [of "JStr ''m1''" configured]
    by simp
qed

subsection \<open>Events added by the functions\<close>

lemma appendsI:
  "(\<And>s. \<exists>es. events (snd (f s)) = events s @ es \<and> list_all P es) \<Longrightarrow> appends P f"
  by (simp add: appends_def)

lemma appends_invoke: "P (Called c) \<Longrightarrow> appends P (invoke api c)"
  by (rule appendsI) (simp add: invoke_def split: prod.splits)

lemma appends_pure: "appends P (pure r)"
  by (rule appendsI) (simp add: pure_def)

lemma appends_and_then:
  assumes m: "appends P m" and f: "\<And>x. appends P (f x)"
  shows "appends P (and_then m f)"
proof (rule appendsI)
  fix s
  obtain r s1 where ms: "m s = (r, s1)" by (cases "m s")
  from m obtain es where es: "events s1 = events s @ es" "list_all P es"
    using ms unfolding appends_def by (metis snd_conv)
  show "\<exists>es. events (snd (and_then m f s)) = events s @ es \<and> list_all P es"
  proof (cases r)
    case (Inl e)
    with ms es show ?thesis by (simp add: and_then_def)
  next
    case (Inr x)
    from f [of x] obtain es' where "events (snd (f x s1)) = events s1 @ es'" "list_all P es'"
      unfolding appends_def by blast
    with ms es Inr show ?thesis by (simp add: and_then_def)
  qed
qed

lemma appends_let: "(\<And>x. appends P (f x)) \<Longrightarrow> appends P (let x = v in f x)"
  by simp

lemma appends_if: "appends P f \<Longrightarrow> appends P g \<Longrightarrow> appends P (if b then f else g)"
  by simp

lemma appends_reraise: "P (LogException e) \<Longrightarrow> \<exists>es. events (snd (reraise a b e s)) = events s @ es \<and> list_all P es"
  by (cases e) (simp_all add: emit_def)

lemma appends_get_space_uid: "(\<And>e. P (LogException e)) \<Longrightarrow> appends P get_space_uid"
  by (rule appendsI) (auto simp: get_space_uid_def appends_reraise split: sum.splits)

lemma appends_get_api_key: "(\<And>e. P (LogException e)) \<Longrightarrow> appends P get_api_key"
  by (rule appendsI) (auto simp: get_api_key_def appends_reraise split: sum.splits)






























section \<open>Properties of model_execute.py\<close>

lemma slept_append: "slept (xs @ ys) = slept xs @ slept ys"
  by (induction xs rule: slept.induct) simp_all

lemma job_state_events:
  "job_state api job_id s = (r, s1) \<Longrightarrow>
     events s1 = events s @ [Called (GetJobStatus job_id)] \<and> files s1 = files s \<and> listing s1 = listing s"
  by (auto simp: job_state_def and_then_def invoke_def pure_def split: prod.splits sum.splits)

lemma wait_longer_events:
  "wait_longer api e s = (r, s1) \<Longrightarrow>
     events s1 = events s @ [Called (Sleep 10)] \<and> (\<forall>e'. r = Inr e' \<longrightarrow> e' = e + 10)"
  by (auto simp: wait_longer_def and_then_def invoke_def pure_def split: prod.splits sum.splits)

lemma poll_job_steps:
  fixes api :: "'w outside"
  assumes "0 \<le> e" "e \<le> 300" "10 dvd e"
  shows "\<exists>new n. events (snd (poll_job api job_id e s)) = events s @ new \<and>
           set new \<subseteq> {Called (GetJobStatus job_id), Called (Sleep 10)} \<and>
           slept new = replicate n 10 \<and> e + 10 * int n \<le> 300 \<and>
           (\<forall>e'. fst (poll_job api job_id e s) = Inr e' \<longrightarrow>
              e' = e + 10 * int n \<and>
              (e' = 300 \<or> (\<exists>s'. job_state api job_id s' =
                                 (Inr (JStr ''completed''), snd (poll_job api job_id e s)))))"
  using assms
proof (induction api job_id e s rule: poll_job.induct)
  case (1 api job_id e s)
  obtain r s1 where js: "job_state api job_id s = (r, s1)" by (cases "job_state api job_id s")
  then have ev1: "events s1 = events s @ [Called (GetJobStatus job_id)]"
    using job_state_events by blast
  show ?case
  proof (cases r)
    case (Inl err)
    with js ev1 show ?thesis
      by (subst poll_job.simps, subst (2) poll_job.simps)
         (auto intro!: exI [of _ "[Called (GetJobStatus job_id)]"] exI [of _ 0] simp: "1.prems")
  next
    case (Inr state)
    show ?thesis
    proof (cases "state \<noteq> JStr ''completed'' \<and> e < 300")
      case False
      have res: "poll_job api job_id e s = (Inr e, s1)"
        using js Inr False by (subst poll_job.simps) auto
      from False "1.prems" have "e = 300 \<or> state = JStr ''completed''" by auto
      with js Inr ev1 show ?thesis
        unfolding res
        by (auto intro!: exI [of _ "[Called (GetJobStatus job_id)]"] exI [of _ 0] simp: "1.prems")
    next
      case True
      obtain r2 s2 where wl: "wait_longer api e s1 = (r2, s2)" by (cases "wait_longer api e s1")
      then have ev2: "events s2 = events s1 @ [Called (Sleep 10)]"
        and nxt: "\<And>e'. r2 = Inr e' \<Longrightarrow> e' = e + 10"
        using wait_longer_events by blast+
      show ?thesis
      proof (cases r2)
        case (Inl err)
        have res: "poll_job api job_id e s = (Inl err, s2)"
          using js Inr True wl Inl by (subst poll_job.simps) auto
        from True "1.prems" have "e + 10 \<le> 300" by (auto elim!: dvdE)
        then show ?thesis
          unfolding res using ev1 ev2
          by (auto intro!: exI [of _ "[Called (GetJobStatus job_id), Called (Sleep 10)]"] exI [of _ 1])
      next
        case (Inr e2)
        with nxt have e2: "e2 = e + 10" by simp
        have res: "poll_job api job_id e s = poll_job api job_id (e + 10) s2"
          using js \<open>r = Inr state\<close> True wl Inr e2 by (subst poll_job.simps) auto
        from True "1.prems" have bound: "0 \<le> e + 10" "e + 10 \<le> 300" "10 dvd e + 10"
          by (auto elim!: dvdE)
        from "1.IH" [OF js [symmetric] \<open>r = Inr state\<close> True wl [symmetric] Inr] e2 bound
        obtain new n where IH: "events (snd (poll_job api job_id (e + 10) s2)) = events s2 @ new"
          "set new \<subseteq> {Called (GetJobStatus job_id), Called (Sleep 10)}"
          "slept new = replicate n 10" "e + 10 + 10 * int n \<le> 300"
          "\<And>e'. fst (poll_job api job_id (e + 10) s2) = Inr e' \<Longrightarrow>
              e' = e + 10 + 10 * int n \<and>
              (e' = 300 \<or> (\<exists>s'. job_state api job_id s' =
                                 (Inr (JStr ''completed''), snd (poll_job api job_id (e + 10) s2))))"
          by blast
        show ?thesis
          unfolding res
          apply (rule exI [of _ "[Called (GetJobStatus job_id), Called (Sleep 10)] @ new"])
          apply (rule exI [of _ "Suc n"])
          using IH ev1 ev2 by (auto simp: slept_append)
      qed
    qed
  qed
qed


text \<open>
  C3. \<^verbatim>\<open>wait_longer\<close> sleeps 10 seconds and returns its argument plus 10. The polling loop,
  started with the counter at 0, always ends: it sleeps \<open>n\<close> times, 10 seconds each, with
  \<open>n\<close> at most 30; when it ends without an exception the counter is \<open>10 * n\<close>, and either the
  counter is 300 or the last state polled was \<^verbatim>\<open>completed\<close>. A poll that answers
  \<^verbatim>\<open>completed\<close> ends the loop at once, without a further sleep.
\<close>

theorem poll_job_bounded:
  fixes api :: "'w outside"
  shows
  "(\<forall>w r s'. wait_longer api w s = (r, s') \<longrightarrow>
       events s' = events s @ [Called (Sleep 10)] \<and> (\<forall>w'. r = Inr w' \<longrightarrow> w' = w + 10)) \<and>
   (\<exists>new n. events (snd (poll_job api job_id 0 s)) = events s @ new \<and>
       slept new = replicate n 10 \<and> n \<le> 30 \<and>
       (\<forall>elapsed. fst (poll_job api job_id 0 s) = Inr elapsed \<longrightarrow>
          elapsed = 10 * int n \<and>
          (elapsed = 300 \<or>
           (\<exists>s'. job_state api job_id s' =
                   (Inr (JStr ''completed''), snd (poll_job api job_id 0 s)))))) \<and>
   (\<forall>elapsed s1. job_state api job_id s = (Inr (JStr ''completed''), s1) \<longrightarrow>
       poll_job api job_id elapsed s = (Inr elapsed, s1))"
proof (intro conjI allI impI)
  fix elapsed s1
  assume "job_state api job_id s = (Inr (JStr ''completed''), s1)"
  then show "poll_job api job_id elapsed s = (Inr elapsed, s1)"
    by (subst poll_job.simps) simp
next
  obtain new n where steps:
    "events (snd (poll_job api job_id 0 s)) = events s @ new"
    "slept new = replicate n 10" "0 + 10 * int n \<le> 300"
    "\<forall>e'. fst (poll_job api job_id 0 s) = Inr e' \<longrightarrow>
        e' = 0 + 10 * int n \<and>
        (e' = 300 \<or> (\<exists>s'. job_state api job_id s' =
                           (Inr (JStr ''completed''), snd (poll_job api job_id 0 s))))"
    using poll_job_steps [of 0 api job_id s] by auto
  from steps(3) have "n \<le> 30" by simp
  with steps show "\<exists>new n. events (snd (poll_job api job_id 0 s)) = events s @ new \<and>
       slept new = replicate n 10 \<and> n \<le> 30 \<and>
       (\<forall>elapsed. fst (poll_job api job_id 0 s) = Inr elapsed \<longrightarrow>
          elapsed = 10 * int n \<and>
          (elapsed = 300 \<or>
           (\<exists>s'. job_state api job_id s' =
                   (Inr (JStr ''completed''), snd (poll_job api job_id 0 s)))))"
    by (intro exI [of _ new] exI [of _ n]) simp
qed (use wait_longer_events in blast)+

lemma slow_state:
  "job_state slow j (polling k es) =
     (Inr (JStr (if 2 \<le> k then ''completed'' else ''running'')),
      polling k (es @ [Called (GetJobStatus j)]))"
  by (simp add: job_state_def and_then_def invoke_def pure_def slow_def polling_def)

lemma slow_wait:
  "wait_longer slow e (polling k es) = (Inr (e + 10), polling (Suc k) (es @ [Called (Sleep 10)]))"
  by (simp add: wait_longer_def and_then_def invoke_def pure_def slow_def polling_def)

lemma slow_run: "fst (poll_job slow (JStr ''job'') 0 (polling 0 [])) = Inr 20"
  by (subst poll_job.simps, simp add: slow_state slow_wait)+

theorem poll_job_bounded_witness:
  "fst (poll_job slow (JStr ''job'') 0 (polling 0 [])) = Inr 20 \<and>
   slept (events (snd (poll_job slow (JStr ''job'') 0 (polling 0 [])))) = [10, 10]"
proof -
  from poll_job_bounded [of slow "polling 0 []" "JStr ''job''"]
  obtain new n where steps:
    "events (snd (poll_job slow (JStr ''job'') 0 (polling 0 []))) = events (polling 0 []) @ new"
    "slept new = replicate n 10"
    "\<forall>elapsed. fst (poll_job slow (JStr ''job'') 0 (polling 0 [])) = Inr elapsed \<longrightarrow> elapsed = 10 * int n"
    by blast
  from steps(3) slow_run have "n = 2" by simp
  with steps(1,2) slow_run show ?thesis
    by (simp add: polling_def numeral_2_eq_2)
qed


lemma appends_and_then_pure:
  "(\<And>x. r = Inr x \<Longrightarrow> appends P (f x)) \<Longrightarrow> appends P (and_then (pure r) f)"
  by (rule appendsI) (cases r; simp add: and_then_def pure_def appends_def)

lemma appends_read:
  "(\<And>x s. g s = Inr x \<Longrightarrow> appends P (f x)) \<Longrightarrow> appends P (and_then (\<lambda>s. (g s, s)) f)"
proof (rule appendsI)
  fix s
  assume f: "\<And>x s. g s = Inr x \<Longrightarrow> appends P (f x)"
  show "\<exists>es. events (snd (and_then (\<lambda>s. (g s, s)) f s)) = events s @ es \<and> list_all P es"
  proof (cases "g s")
    case (Inl e)
    then show ?thesis by (simp add: and_then_def)
  next
    case (Inr x)
    from f [OF this] Inr show ?thesis by (simp add: and_then_def appends_def)
  qed
qed

lemma appends_wml_client:
  assumes "\<And>e. P (LogException e)" "P (Called (APIClient creds))" "\<And>x. P (Called (SetDefaultSpace x))"
  shows "appends P (get_wml_client api creds)"
  unfolding get_wml_client_def
  by (intro appends_and_then appends_invoke appends_pure appends_get_space_uid assms)

lemma appends_results:
  assumes "P (Called (GetJobDetails job_id))" "\<And>k d. P (LogInfo k d)"
  shows "appends P (process_results api new_frame job_id)"
  unfolding process_results_def
  by (intro appends_and_then appends_invoke appends_pure assms)
     (rule appendsI, simp add: emit_def write_csv_def assms)

lemma appends_poll:
  assumes "P (Called (GetJobStatus job_id))" "P (Called (Sleep 10))"
  shows "appends P (poll_job api job_id 0)"
proof (rule appendsI)
  fix s
  from poll_job_steps [of 0 api job_id s]
  obtain new where "events (snd (poll_job api job_id 0 s)) = events s @ new"
    "set new \<subseteq> {Called (GetJobStatus job_id), Called (Sleep 10)}" by auto
  with assms show "\<exists>es. events (snd (poll_job api job_id 0 s)) = events s @ es \<and> list_all P es"
    by (auto simp: list_all_iff)
qed

lemma appends_state:
  "P (Called (GetJobStatus job_id)) \<Longrightarrow> appends P (job_state api job_id)"
  unfolding job_state_def by (intro appends_and_then appends_invoke appends_pure)

lemma appends_report:
  assumes "P (Called (GetJobStatus job_id))" "P (Called (GetJobDetails job_id))"
    "\<And>k d. P (LogInfo k d)" "\<And>m. P (Printed m)"
  shows "appends P (report_job api new_frame job_id)"
  unfolding report_job_def
  by (intro appends_and_then appends_state appends_if appends_results assms)
     (rule appendsI, simp add: emit_def assms)

lemma results_begin:
  "\<exists>rest. events (snd (process_results api new_frame job_id s)) =
      events s @ Called (GetJobDetails job_id) # rest"
proof -
  obtain r s1 where inv: "invoke api (GetJobDetails job_id) s = (r, s1)"
    by (cases "invoke api (GetJobDetails job_id) s")
  then have ev: "events s1 = events s @ [Called (GetJobDetails job_id)]"
    by (auto simp: invoke_def split: prod.splits)
  show ?thesis
  proof (cases r)
    case (Inl e)
    with inv ev show ?thesis by (simp add: process_results_def and_then_def)
  next
    case (Inr details)
    define rest where "rest = (\<lambda>job_details_do.
     and_then (pure (subscripts job_details_do
        [''entity'', ''decision_optimization'', ''solve_state'', ''details'', ''KPI.Projected Profit''])) (\<lambda>kpi.
     and_then (pure (subscripts job_details_do [''entity'', ''decision_optimization'', ''output_data''])) (\<lambda>outputs.
     and_then (pure (py_iter outputs)) (\<lambda>output_list.
     and_then (pure (next_solution output_list)) (\<lambda>decisions.
     and_then (pure (subscript decisions ''values'')) (\<lambda>vals.
     and_then (pure (subscript decisions ''fields'')) (\<lambda>fields.
     and_then (pure (new_frame vals fields)) (\<lambda>decision_df.
     (\<lambda>s :: 'a world. (Inr () :: py_error + unit, emit (LogInfo kpi decision_df) (write_csv ''solution.csv'' True decision_df s)))))))))))"
    have "appends (\<lambda>e. True) (rest details)"
      unfolding rest_def
      by (intro appends_and_then appends_pure) (rule appendsI, simp add: emit_def write_csv_def)
    then obtain es where "events (snd (rest details s1)) = events s1 @ es"
      unfolding appends_def by blast
    moreover have "process_results api new_frame job_id s = rest details s1"
      using inv Inr by (simp add: process_results_def rest_def and_then_def)
    ultimately show ?thesis using ev by simp
  qed
qed


text \<open>
  C4, as amended. After the loop the job state is queried afresh. \<^verbatim>\<open>process_results\<close> is
  run, and the job details requested, exactly when that query answers \<^verbatim>\<open>completed\<close>. When
  the query answers anything else the script prints its message, asks for no details and leaves
  the files as they were. When the query itself raises, the exception ends the script: nothing
  is printed, no details are asked for and the files are as they were.
\<close>

theorem report_job_outcomes:
  fixes api :: "'w outside"
  assumes query: "job_state api job_id s = (r, s1)"
  shows
  "(Called (GetJobDetails job_id) \<in>
        set (drop (length (events s)) (events (snd (report_job api new_frame job_id s))))
      \<longleftrightarrow> r = Inr (JStr ''completed'')) \<and>
   (r = Inr (JStr ''completed'') \<longrightarrow>
      report_job api new_frame job_id s = process_results api new_frame job_id s1) \<and>
   (\<forall>state. r = Inr state \<and> state \<noteq> JStr ''completed'' \<longrightarrow>
      report_job api new_frame job_id s = (Inr (), emit (Printed not_completed_msg) s1) \<and>
      drop (length (events s)) (events (snd (report_job api new_frame job_id s))) =
        [Called (GetJobStatus job_id), Printed not_completed_msg] \<and>
      files (snd (report_job api new_frame job_id s)) = files s \<and>
      listing (snd (report_job api new_frame job_id s)) = listing s) \<and>
   (\<forall>e. r = Inl e \<longrightarrow>
      report_job api new_frame job_id s = (Inl e, s1) \<and>
      drop (length (events s)) (events (snd (report_job api new_frame job_id s))) =
        [Called (GetJobStatus job_id)] \<and>
      files (snd (report_job api new_frame job_id s)) = files s \<and>
      listing (snd (report_job api new_frame job_id s)) = listing s)"
proof -
  from query have s1: "events s1 = events s @ [Called (GetJobStatus job_id)]"
    "files s1 = files s" "listing s1 = listing s"
    using job_state_events by blast+
  show ?thesis
  proof (cases r)
    case (Inl e)
    with query s1 show ?thesis
      by (simp add: report_job_def and_then_def)
  next
    case (Inr state)
    show ?thesis
    proof (cases "state = JStr ''completed''")
      case True
      have run: "report_job api new_frame job_id s = process_results api new_frame job_id s1"
        using query Inr True by (simp add: report_job_def and_then_def)
      from results_begin [of api new_frame job_id s1] s1 run
      have "Called (GetJobDetails job_id) \<in>
        set (drop (length (events s)) (events (snd (report_job api new_frame job_id s))))"
        by auto
      with run Inr True show ?thesis by simp
    next
      case False
      with query Inr s1 show ?thesis
        by (simp add: report_job_def and_then_def emit_def)
    qed
  qed
qed

theorem report_job_outcomes_witness:
  "job_state slow (JStr ''job'') (polling 0 []) =
     (Inr (JStr ''running''), polling 0 [Called (GetJobStatus (JStr ''job''))]) \<and>
   report_job slow no_frame (JStr ''job'') (polling 0 []) =
     (Inr (), polling 0 [Called (GetJobStatus (JStr ''job'')), Printed not_completed_msg]) \<and>
   job_state slow (JStr ''job'') (polling 2 []) =
     (Inr (JStr ''completed''), polling 2 [Called (GetJobStatus (JStr ''job''))]) \<and>
   report_job slow no_frame (JStr ''job'') (polling 2 []) =
     process_results slow no_frame (JStr ''job'') (polling 2 [Called (GetJobStatus (JStr ''job''))])"
proof -
  have q0: "job_state slow (JStr ''job'') (polling 0 []) =
     (Inr (JStr ''running''), polling 0 [Called (GetJobStatus (JStr ''job''))])"
    by (simp add: slow_state)
  have q2: "job_state slow (JStr ''job'') (polling 2 []) =
     (Inr (JStr ''completed''), polling 2 [Called (GetJobStatus (JStr ''job''))])"
    by (simp add: slow_state)
  from report_job_outcomes [OF q0, of no_frame] report_job_outcomes [OF q2, of no_frame] q0 q2
  show ?thesis
    by (simp add: emit_def polling_def)
qed

text \<open>
  C4, as stated, fails when the fresh query raises: the job is not reported completed, yet the
  message is not printed.
\<close>

theorem report_job_query_raises_counterexample:
  "fst (job_state unreachable (JStr ''job'') (polling 0 [])) \<noteq> Inr (JStr ''completed'') \<and>
   report_job unreachable no_frame (JStr ''job'') (polling 0 []) =
     (Inl (ApiError ''connection lost''), polling 0 [Called (GetJobStatus (JStr ''job''))]) \<and>
   Printed not_completed_msg \<notin>
     set (events (snd (report_job unreachable no_frame (JStr ''job'') (polling 0 []))))"
  by (simp add: report_job_def job_state_def and_then_def invoke_def unreachable_def polling_def)

text \<open>
  C10. The value bound to \<^verbatim>\<open>solve_parameters\<close> does not reach the run: the script does the
  same for any two values, in particular for the one \<^verbatim>\<open>get_solve_parameters\<close> returns, and
  every job it creates carries the payload of \<^verbatim>\<open>define_job_payload\<close>, which holds the two
  input frames under \<^verbatim>\<open>INPUT_DATA\<close>, the output pattern under \<^verbatim>\<open>OUTPUT_DATA\<close>, and nothing
  else.
\<close>

theorem payload_ignores_solve_parameters:
  fixes api :: "'w outside"
  shows
  "model_execute_with api new_frame p1 s = model_execute_with api new_frame p2 s \<and>
   model_execute_main api new_frame s = model_execute_with api new_frame p1 s \<and>
   (\<forall>d pl. Called (CreateJob d pl) \<in>
        set (drop (length (events s)) (events (snd (model_execute_with api new_frame p1 s)))) \<longrightarrow>
      (\<exists>inputs availability product_info.
         get_all_inputs s = Inr inputs \<and>
         map_of inputs ''Availability'' = Some availability \<and>
         map_of inputs ''ProductInfo'' = Some product_info \<and>
         pl = [(INPUT_DATA,
                  [\<lparr>entry_id = ''Availability.csv'', entry_values = Some availability\<rparr>,
                   \<lparr>entry_id = ''ProductInfo.csv'', entry_values = Some product_info\<rparr>]),
               (OUTPUT_DATA, [\<lparr>entry_id = ''.*.csv'', entry_values = None\<rparr>])]))"
proof (intro conjI allI impI)
  show "model_execute_with api new_frame p1 s = model_execute_with api new_frame p2 s"
    by (simp add: model_execute_with_def)
  show "model_execute_main api new_frame s = model_execute_with api new_frame p1 s"
    by (simp add: model_execute_main_def model_execute_with_def)
next
  fix d pl
  assume sent: "Called (CreateJob d pl) \<in>
        set (drop (length (events s)) (events (snd (model_execute_with api new_frame p1 s))))"
  define P where "P inputs e \<longleftrightarrow> (\<forall>d pl. e = Called (CreateJob d pl) \<longrightarrow> define_job_payload inputs = Inr pl)"
    for inputs e
  have tail: "appends (P inputs)
      (and_then (invoke api (CreateJob d' pl')) (\<lambda>job.
       and_then (invoke api (GetJobUid job)) (\<lambda>job_id.
       and_then (poll_job api job_id 0) (\<lambda>elapsed_time.
       report_job api new_frame job_id))))"
    if "define_job_payload inputs = Inr pl'" for inputs d' pl'
    by (intro appends_and_then appends_invoke appends_poll appends_report)
       (simp_all add: P_def that)
  define rest where "rest inputs =
      and_then get_api_key (\<lambda>api_key.
      (let wml_credentials = JObj [(''url'', JStr ''https://eu-de.ml.cloud.ibm.com''), (''apikey'', api_key)] in
       and_then (get_wml_client api wml_credentials) (\<lambda>client.
       and_then (\<lambda>s. (execute_get_deployment_id s, s)) (\<lambda>deployment_id.
       and_then (pure (define_job_payload inputs)) (\<lambda>job_payload_ref.
       and_then (invoke api (CreateJob deployment_id job_payload_ref)) (\<lambda>job.
       and_then (invoke api (GetJobUid job)) (\<lambda>job_id.
       and_then (poll_job api job_id 0) (\<lambda>elapsed_time.
       report_job api new_frame job_id))))))))" for inputs
  have rest: "appends (P inputs) (rest inputs)" for inputs
    unfolding rest_def Let_def
    apply (rule appends_and_then)
     apply (rule appends_get_api_key, simp add: P_def)
    apply (rule appends_and_then)
     apply (rule appends_wml_client; simp add: P_def)
    apply (rule appends_read)
    apply (rule appends_and_then_pure)
    apply (erule tail)
    done
  show "\<exists>inputs availability product_info.
         get_all_inputs s = Inr inputs \<and>
         map_of inputs ''Availability'' = Some availability \<and>
         map_of inputs ''ProductInfo'' = Some product_info \<and>
         pl = [(INPUT_DATA,
                  [\<lparr>entry_id = ''Availability.csv'', entry_values = Some availability\<rparr>,
                   \<lparr>entry_id = ''ProductInfo.csv'', entry_values = Some product_info\<rparr>]),
               (OUTPUT_DATA, [\<lparr>entry_id = ''.*.csv'', entry_values = None\<rparr>])]"
  proof (cases "get_all_inputs s")
    case (Inl e)
    then have "model_execute_with api new_frame p1 s = (Inl e, s)"
      by (simp add: model_execute_with_def and_then_def)
    with sent show ?thesis by simp
  next
    case (Inr inputs)
    then have run: "model_execute_with api new_frame p1 s = rest inputs s"
      by (simp add: model_execute_with_def and_then_def rest_def)
    from rest [of inputs] obtain es where
      "events (snd (rest inputs s)) = events s @ es" "list_all (P inputs) es"
      unfolding appends_def by blast
    with sent run have "P inputs (Called (CreateJob d pl))"
      by (simp add: list_all_iff)
    then have "define_job_payload inputs = Inr pl"
      by (simp add: P_def)
    with Inr show ?thesis
      by (auto simp: define_job_payload_def input_frame_def split: option.splits)
  qed
qed

lemma splitext_examples:
  "splitext ''Availability.csv'' = (''Availability'', ''.csv'')"
  "splitext ''ProductInfo.csv'' = (''ProductInfo'', ''.csv'')"
  "splitext ''model.py'' = (''model'', ''.py'')"
  by (simp_all add: splitext_def Let_def)

lemma ready_inputs:
  "get_all_inputs ready = Inr [(''Availability'', capacity), (''ProductInfo'', products)]"
  by (simp add: get_all_inputs_def ready_def read_csv_def splitext_examples csv_file_def)

lemma ready_files:
  "files ready settings_path = files configured settings_path"
  "files ready auth_path = files configured auth_path"
  by (simp_all add: ready_def settings_path_def auth_path_def)

lemma ready_run:
  "events (snd (model_execute_with refusing no_frame JNull ready)) =
     [Called (APIClient (JObj [(''url'', JStr ''https://eu-de.ml.cloud.ibm.com''), (''apikey'', JStr ''secret'')])),
      Called (SetDefaultSpace (JStr ''s1'')),
      Called (CreateJob (JStr ''d0'')
        [(INPUT_DATA, [\<lparr>entry_id = ''Availability.csv'', entry_values = Some capacity\<rparr>,
                       \<lparr>entry_id = ''ProductInfo.csv'', entry_values = Some products\<rparr>]),
         (OUTPUT_DATA, [\<lparr>entry_id = ''.*.csv'', entry_values = None\<rparr>])])]"
  by (simp add: model_execute_with_def ready_inputs and_then_def pure_def get_api_key_def
      load_key_auth load_key_settings ready_files configured_files json_file_def
      get_wml_client_def get_space_uid_def invoke_def refusing_def
      execute_get_deployment_id_def load_settings define_job_payload_def input_frame_def)
     (simp add: ready_def configured_def)

theorem payload_ignores_solve_parameters_witness:
  "Called (CreateJob (JStr ''d0'')
      [(INPUT_DATA, [\<lparr>entry_id = ''Availability.csv'', entry_values = Some capacity\<rparr>,
                     \<lparr>entry_id = ''ProductInfo.csv'', entry_values = Some products\<rparr>]),
       (OUTPUT_DATA, [\<lparr>entry_id = ''.*.csv'', entry_values = None\<rparr>])])
     \<in> set (drop (length (events ready))
               (events (snd (model_execute_with refusing no_frame JNull ready)))) \<and>
   get_all_inputs ready = Inr [(''Availability'', capacity), (''ProductInfo'', products)] \<and>
   model_execute_with refusing no_frame JNull ready =
     model_execute_with refusing no_frame get_solve_parameters ready \<and>
   (\<exists>inputs. get_all_inputs ready = Inr inputs \<and>
      map_of inputs ''Availability'' = Some capacity \<and>
      map_of inputs ''ProductInfo'' = Some products)"
proof -
  have ev: "events ready = []"
    by (simp add: ready_def configured_def)
  have sent: "Called (CreateJob (JStr ''d0'')
      [(INPUT_DATA, [\<lparr>entry_id = ''Availability.csv'', entry_values = Some capacity\<rparr>,
                     \<lparr>entry_id = ''ProductInfo.csv'', entry_values = Some products\<rparr>]),
       (OUTPUT_DATA, [\<lparr>entry_id = ''.*.csv'', entry_values = None\<rparr>])])
     \<in> set (drop (length (events ready))
               (events (snd (model_execute_with refusing no_frame JNull ready))))"
    unfolding ready_run ev by simp
  from payload_ignores_solve_parameters [of refusing no_frame JNull ready get_solve_parameters]
  have same: "model_execute_with refusing no_frame JNull ready =
     model_execute_with refusing no_frame get_solve_parameters ready"
    by (rule conjunct1)
  from payload_ignores_solve_parameters [of refusing no_frame JNull ready get_solve_parameters] sent
  have built: "\<exists>inputs. get_all_inputs ready = Inr inputs \<and>
      map_of inputs ''Availability'' = Some capacity \<and>
      map_of inputs ''ProductInfo'' = Some products"
    by (elim conjE allE [of _ "JStr ''d0''"] allE [of _ "[(INPUT_DATA, [\<lparr>entry_id = ''Availability.csv'', entry_values = Some capacity\<rparr>,
                     \<lparr>entry_id = ''ProductInfo.csv'', entry_values = Some products\<rparr>]),
       (OUTPUT_DATA, [\<lparr>entry_id = ''.*.csv'', entry_values = None\<rparr>])]"]) auto
  show ?thesis
    by (rule conjI [OF sent conjI [OF ready_inputs conjI [OF same built]]])
qed


section \<open>Properties of model.py\<close>

lemma splitext_join: "fst (splitext p) @ snd (splitext p) = p"
  by (simp add: splitext_def Let_def)

lemma csv_name: "snd (splitext f) = ''.csv'' \<Longrightarrow> fst (splitext f) @ ''.csv'' = f"
  using splitext_join [of f] by simp

lemma read_inputs_ok:
  "read_inputs fs acc s = Inr result \<Longrightarrow> f \<in> set fs \<Longrightarrow> \<exists>df. read_csv f s = Inr df"
  by (induction fs arbitrary: acc) (auto split: sum.splits prod.splits)

lemma read_inputs_total:
  "(\<And>f. f \<in> set fs \<Longrightarrow> \<exists>df. read_csv f s = Inr df) \<Longrightarrow> \<exists>result. read_inputs fs acc s = Inr result"
  by (induction fs arbitrary: acc) (auto split: sum.splits prod.splits, fastforce)

lemma read_inputs_distinct:
  "read_inputs fs acc s = Inr result \<Longrightarrow> distinct (map fst acc) \<Longrightarrow> distinct (map fst result)"
  by (induction fs arbitrary: acc) (auto split: sum.splits prod.splits simp: distinct_update)

lemma read_inputs_map:
  assumes "read_inputs fs acc s = Inr result" "\<And>f. f \<in> set fs \<Longrightarrow> snd (splitext f) = ''.csv''"
  shows "map_of result k =
           (if k @ ''.csv'' \<in> set fs
            then (case read_csv (k @ ''.csv'') s of Inl e \<Rightarrow> None | Inr df \<Rightarrow> Some df)
            else map_of acc k)"
  using assms
proof (induction fs arbitrary: acc)
  case Nil
  then show ?case by simp
next
  case (Cons f fs)
  from Cons.prems(2) [of f] have f: "fst (splitext f) @ ''.csv'' = f"
    by (simp add: csv_name)
  from Cons.prems(1) obtain df where df: "read_csv f s = Inr df"
    and rest: "read_inputs fs (AList.update (fst (splitext f)) df acc) s = Inr result"
    by (auto split: sum.splits prod.splits)
  have IH: "map_of result k =
           (if k @ ''.csv'' \<in> set fs
            then (case read_csv (k @ ''.csv'') s of Inl e \<Rightarrow> None | Inr df \<Rightarrow> Some df)
            else map_of (AList.update (fst (splitext f)) df acc) k)"
    using Cons.IH [OF rest] Cons.prems(2) by simp
  have same: "k @ ''.csv'' = f \<longleftrightarrow> k = fst (splitext f)"
    using f by (metis append_same_eq)
  show ?case
    using IH df same by (auto simp: update_conv')
qed

text \<open>
  C8. When \<^verbatim>\<open>get_all_inputs\<close> returns, every listed file whose extension is \<^verbatim>\<open>.csv\<close> has
  an entry, keyed by its name without the extension and holding the frame parsed from that
  file; every entry of the dictionary is the entry of such a file; and no key occurs twice. It
  returns whenever every listed \<^verbatim>\<open>.csv\<close> file can be read and parsed.
\<close>

theorem get_all_inputs_entries:
  "(get_all_inputs s = Inr result \<longrightarrow>
      (\<forall>f \<in> set (listing s). snd (splitext f) = ''.csv'' \<longrightarrow>
          fst (splitext f) @ ''.csv'' = f \<and>
          (\<exists>df. read_csv f s = Inr df \<and> map_of result (fst (splitext f)) = Some df)) \<and>
      (\<forall>k df. map_of result k = Some df \<longrightarrow>
          (\<exists>f \<in> set (listing s). snd (splitext f) = ''.csv'' \<and> fst (splitext f) = k \<and>
                read_csv f s = Inr df)) \<and>
      distinct (map fst result)) \<and>
   ((\<forall>f \<in> set (listing s). snd (splitext f) = ''.csv'' \<longrightarrow> (\<exists>df. read_csv f s = Inr df)) \<longrightarrow>
      (\<exists>result. get_all_inputs s = Inr result))"
proof (intro conjI impI)
  assume "\<forall>f \<in> set (listing s). snd (splitext f) = ''.csv'' \<longrightarrow> (\<exists>df. read_csv f s = Inr df)"
  then show "\<exists>result. get_all_inputs s = Inr result"
    unfolding get_all_inputs_def Let_def by (intro read_inputs_total) simp
next
  let ?csv = "filter (\<lambda>file_name. snd (splitext file_name) = ''.csv'') (listing s)"
  assume "get_all_inputs s = Inr result"
  then have run: "read_inputs ?csv [] s = Inr result"
    by (simp add: get_all_inputs_def)
  have entry: "map_of result k =
           (if k @ ''.csv'' \<in> set ?csv
            then (case read_csv (k @ ''.csv'') s of Inl e \<Rightarrow> None | Inr df \<Rightarrow> Some df)
            else None)" for k
    using read_inputs_map [OF run, of k] by simp
  show "distinct (map fst result)"
    using read_inputs_distinct [OF run] by simp
  show "\<forall>f \<in> set (listing s). snd (splitext f) = ''.csv'' \<longrightarrow>
          fst (splitext f) @ ''.csv'' = f \<and>
          (\<exists>df. read_csv f s = Inr df \<and> map_of result (fst (splitext f)) = Some df)"
  proof (intro ballI impI)
    fix f assume f: "f \<in> set (listing s)" "snd (splitext f) = ''.csv''"
    then have name: "fst (splitext f) @ ''.csv'' = f" by (simp add: csv_name)
    from f have "f \<in> set ?csv" by simp
    from read_inputs_ok [OF run this] obtain df where "read_csv f s = Inr df" by blast
    with name f entry [of "fst (splitext f)"]
    show "fst (splitext f) @ ''.csv'' = f \<and>
          (\<exists>df. read_csv f s = Inr df \<and> map_of result (fst (splitext f)) = Some df)"
      by simp
  qed
  show "\<forall>k df. map_of result k = Some df \<longrightarrow>
          (\<exists>f \<in> set (listing s). snd (splitext f) = ''.csv'' \<and> fst (splitext f) = k \<and>
                read_csv f s = Inr df)"
  proof (intro allI impI)
    fix k df assume "map_of result k = Some df"
    with entry [of k] have f: "k @ ''.csv'' \<in> set (listing s)"
      "snd (splitext (k @ ''.csv'')) = ''.csv''" "read_csv (k @ ''.csv'') s = Inr df"
      by (auto split: if_splits sum.splits)
    from csv_name [OF f(2)] have "fst (splitext (k @ ''.csv'')) = k" by simp
    with f show "\<exists>f \<in> set (listing s). snd (splitext f) = ''.csv'' \<and> fst (splitext f) = k \<and>
                read_csv f s = Inr df"
      by blast
  qed
qed

theorem get_all_inputs_entries_witness:
  "get_all_inputs ready = Inr [(''Availability'', capacity), (''ProductInfo'', products)] \<and>
   snd (splitext ''ProductInfo.csv'') = ''.csv'' \<and>
   read_csv ''ProductInfo.csv'' ready = Inr products \<and>
   map_of [(''Availability'', capacity), (''ProductInfo'', products)] (fst (splitext ''ProductInfo.csv''))
     = Some products \<and>
   snd (splitext ''model.py'') \<noteq> ''.csv'' \<and>
   map_of [(''Availability'', capacity), (''ProductInfo'', products)] ''model'' = None"
proof -
  have listed: "''ProductInfo.csv'' \<in> set (listing ready)"
    by (simp add: ready_def)
  have csv: "snd (splitext ''ProductInfo.csv'') = ''.csv''"
    by (simp add: splitext_examples)
  have parsed: "read_csv ''ProductInfo.csv'' ready = Inr products"
    by (simp add: read_csv_def ready_def csv_file_def)
  from get_all_inputs_entries [of ready "[(''Availability'', capacity), (''ProductInfo'', products)]"]
    ready_inputs listed csv parsed
  have "map_of [(''Availability'', capacity), (''ProductInfo'', products)]
          (fst (splitext ''ProductInfo.csv'')) = Some products"
    by fastforce
  with ready_inputs csv parsed show ?thesis
    by (simp add: splitext_examples)
qed


lemma update_fresh: "k \<notin> fst ` set al \<Longrightarrow> AList.update k v al = al @ [(k, v)]"
  by (induction al) auto

lemma dict_of_pairs:
  "distinct (map fst (acc @ xs)) \<Longrightarrow>
     foldl (\<lambda>d kv. AList.update (fst kv) (snd kv) d) acc xs = acc @ xs"
proof (induction xs arbitrary: acc)
  case Nil
  then show ?case by simp
next
  case (Cons x xs)
  from Cons.prems have fresh: "fst x \<notin> fst ` set acc" by auto
  from Cons.prems have "distinct (map fst ((acc @ [x]) @ xs))" by simp
  from Cons.IH [OF this] fresh show ?case
    by (simp add: update_fresh)
qed

lemma var_dict:
  assumes "distinct keys"
  shows "continuous_var_dict fmt keys n model =
           (map (\<lambda>k. (k, var_name fmt n k)) keys,
            model\<lparr>variables := variables model @ map (var_name fmt n) keys\<rparr>)"
proof -
  have "zip keys (map (var_name fmt n) keys) = map (\<lambda>k. (k, var_name fmt n k)) keys"
    by (induction keys) simp_all
  moreover have "distinct (map fst ([] @ map (\<lambda>k. (k, var_name fmt n k)) keys))"
    using assms by (simp add: comp_def)
  ultimately show ?thesis
    using dict_of_pairs [of "[]" "map (\<lambda>k. (k, var_name fmt n k)) keys"]
    by (simp add: continuous_var_dict_def Let_def)
qed

lemma var_of_dict:
  "m \<in> set keys \<Longrightarrow> var_of (map (\<lambda>k. (k, f k)) keys) m = Inr (f m)"
  by (induction keys) (auto simp: var_of_def)

lemma demand_loop:
  assumes "\<And>m. m \<in> set ms \<Longrightarrow> var_of qty m = Inr (q m)"
    and "\<And>m. m \<in> set ms \<Longrightarrow> var_of slacks m = Inr (u m)"
    and "\<And>m. m \<in> set ms \<Longrightarrow> loc requirement m ''RequiredThisWeek'' = Inr (Scalar (Num (required m)))"
  shows "add_demand_constraints ms qty slacks requirement model =
           Inr (model\<lparr>constraints := constraints model @
                  map (\<lambda>m. \<lparr>lhs = [(1, q m), (1, u m)], sense = GE, rhs = required m\<rparr>) ms\<rparr>)"
  using assms
  by (induction ms arbitrary: model) (simp_all add: on_value_def number_def add_constraint_def)

lemma weighted_sum_terms:
  assumes "\<And>m. m \<in> set ms \<Longrightarrow> var_of qty m = Inr (q m)"
    and "\<And>m. m \<in> set ms \<Longrightarrow> loc requirement m c = Inr (Scalar (Num (coefficient m)))"
  shows "weighted_sum requirement c qty ms = Inr (map (\<lambda>m. (coefficient m, q m)) ms)"
  using assms by (induction ms) (simp_all add: on_value_def number_def)

lemma plain_sum_terms:
  assumes "\<And>m. m \<in> set ms \<Longrightarrow> var_of slacks m = Inr (u m)"
  shows "plain_sum slacks ms = Inr (map (\<lambda>m. (1, u m)) ms)"
  using assms by (induction ms) (simp_all add: on_value_def)

lemma create_base_model_planned:
  assumes "tabulated inputs requirement availability required assembly_hours painting_hours
             profit_margin assembly_capacity painting_capacity"
  shows "create_base_model fmt inputs =
           Inr (planned fmt (index_values requirement) required assembly_hours painting_hours
                  profit_margin assembly_capacity painting_capacity)"
proof -
  let ?ms = "index_values requirement"
  let ?q = "var_name fmt ''QtyToProduce''" and ?u = "var_name fmt ''UnfulfilledDemand''"
  let ?qty = "map (\<lambda>k. (k, ?q k)) ?ms" and ?slacks = "map (\<lambda>k. (k, ?u k)) ?ms"
  from assms obtain product_info resources where frames:
    "input_frame inputs ''ProductInfo'' = Inr product_info"
    "set_index ''ResourceName'' product_info = Inr requirement"
    "input_frame inputs ''Availability'' = Inr resources"
    "set_index ''Resource'' resources = Inr availability"
    by (auto simp: tabulated_def on_value_def split: sum.splits)
  from assms have d: "distinct ?ms" and
    cells: "\<And>m. m \<in> set ?ms \<Longrightarrow> loc requirement m ''RequiredThisWeek'' = Inr (Scalar (Num (required m)))"
      "\<And>m. m \<in> set ?ms \<Longrightarrow> loc requirement m ''AssemblyHours'' = Inr (Scalar (Num (assembly_hours m)))"
      "\<And>m. m \<in> set ?ms \<Longrightarrow> loc requirement m ''PaintingHours'' = Inr (Scalar (Num (painting_hours m)))"
      "\<And>m. m \<in> set ?ms \<Longrightarrow> loc requirement m ''ProfitMargin'' = Inr (Scalar (Num (profit_margin m)))"
    and caps: "loc availability (Str ''Assembly'') ''Capacity'' = Inr (Scalar (Num assembly_capacity))"
      "loc availability (Str ''Painting'') ''Capacity'' = Inr (Scalar (Num painting_capacity))"
    by (simp_all add: tabulated_def)
  have keys: "map fst ?qty = ?ms" by (simp add: comp_def)
  have q: "\<And>m. m \<in> set ?ms \<Longrightarrow> var_of ?qty m = Inr (?q m)"
    and u: "\<And>m. m \<in> set ?ms \<Longrightarrow> var_of ?slacks m = Inr (?u m)"
    by (simp_all add: var_of_dict)
  show ?thesis
    unfolding create_base_model_def
    by (simp add: frames on_value_def var_dict [OF d] comp_def Let_def
        demand_loop [where q = ?q and u = ?u and required = required, OF q u cells(1)]
        weighted_sum_terms [where q = ?q, OF q cells(2)]
        weighted_sum_terms [where q = ?q, OF q cells(3)]
        weighted_sum_terms [where q = ?q, OF q cells(4)]
        plain_sum_terms [where u = ?u, OF u]
        caps number_def add_constraint_def add_kpi_def maximize_def new_model_def planned_def)
qed


lemma eval_terms: "eval_expr x (map (\<lambda>m. (c m, q m)) ms) = (\<Sum>m\<leftarrow>ms. c m * x (q m))"
  by (simp add: eval_expr_def comp_def)

text \<open>
  C2. On inputs that hold the two tables, \<^verbatim>\<open>create_base_model\<close> returns a model whose
  constraints are, for every material \<open>m\<close> in the order of the table,
  \<open>QtyToProduce__m + UnfulfilledDemand__m \<ge> RequiredThisWeek m\<close>, followed by one constraint
  \<open>sum (AssemblyHours m * QtyToProduce__m) \<le> Capacity Assembly\<close> and one constraint
  \<open>sum (PaintingHours m * QtyToProduce__m) \<le> Capacity Painting\<close>, and whose objective is to
  maximise \<open>sum (ProfitMargin m * QtyToProduce__m)\<close>; an assignment of the variables satisfies
  the constraints of the model exactly when it satisfies these inequalities.
\<close>

theorem create_base_model_constraints:
  assumes "tabulated inputs requirement availability required assembly_hours painting_hours
             profit_margin assembly_capacity painting_capacity"
  shows "\<exists>model. create_base_model fmt inputs = Inr model \<and>
     constraints model =
       map (\<lambda>m. \<lparr>lhs = [(1, var_name fmt ''QtyToProduce'' m), (1, var_name fmt ''UnfulfilledDemand'' m)],
                  sense = GE, rhs = required m\<rparr>) (index_values requirement) @
       [\<lparr>lhs = map (\<lambda>m. (assembly_hours m, var_name fmt ''QtyToProduce'' m)) (index_values requirement),
         sense = LE, rhs = assembly_capacity\<rparr>,
        \<lparr>lhs = map (\<lambda>m. (painting_hours m, var_name fmt ''QtyToProduce'' m)) (index_values requirement),
         sense = LE, rhs = painting_capacity\<rparr>] \<and>
     objective model =
       Some (Maximize, map (\<lambda>m. (profit_margin m, var_name fmt ''QtyToProduce'' m)) (index_values requirement)) \<and>
     (\<forall>x. list_all (holds x) (constraints model) \<longleftrightarrow>
        (\<forall>m \<in> set (index_values requirement).
            required m \<le> x (var_name fmt ''QtyToProduce'' m) + x (var_name fmt ''UnfulfilledDemand'' m)) \<and>
        (\<Sum>m\<leftarrow>index_values requirement. assembly_hours m * x (var_name fmt ''QtyToProduce'' m))
           \<le> assembly_capacity \<and>
        (\<Sum>m\<leftarrow>index_values requirement. painting_hours m * x (var_name fmt ''QtyToProduce'' m))
           \<le> painting_capacity) \<and>
     (\<forall>x goal expr. objective model = Some (goal, expr) \<longrightarrow>
        goal = Maximize \<and>
        eval_expr x expr =
          (\<Sum>m\<leftarrow>index_values requirement. profit_margin m * x (var_name fmt ''QtyToProduce'' m)))"
  unfolding create_base_model_planned [OF assms]
  by (auto simp: planned_def list_all_iff holds_def eval_expr_def comp_def)

text \<open>
  C7. On the same inputs the model has exactly two KPIs, \<^verbatim>\<open>Projected Profit\<close> with the
  expression \<open>sum (ProfitMargin m * QtyToProduce__m)\<close> and \<^verbatim>\<open>Unfulfilled Demand\<close> with the sum
  of the slack variables; their values at a solution are these sums over the solved values,
  and two solutions that agree on the variables of the model give the same KPI values.
\<close>

theorem create_base_model_kpis:
  assumes "tabulated inputs requirement availability required assembly_hours painting_hours
             profit_margin assembly_capacity painting_capacity"
  shows "\<exists>model. create_base_model fmt inputs = Inr model \<and>
     kpis model =
       [(''Projected Profit'',
           map (\<lambda>m. (profit_margin m, var_name fmt ''QtyToProduce'' m)) (index_values requirement)),
        (''Unfulfilled Demand'',
           map (\<lambda>m. (1, var_name fmt ''UnfulfilledDemand'' m)) (index_values requirement))] \<and>
     (\<forall>found. kpis_as_dict model found =
        [(''Projected Profit'',
            \<Sum>m\<leftarrow>index_values requirement.
               profit_margin m * solution_value found (var_name fmt ''QtyToProduce'' m)),
         (''Unfulfilled Demand'',
            \<Sum>m\<leftarrow>index_values requirement. solution_value found (var_name fmt ''UnfulfilledDemand'' m))]) \<and>
     (\<forall>found found'.
        (\<forall>v \<in> set (variables model). solution_value found v = solution_value found' v) \<longrightarrow>
        kpis_as_dict model found = kpis_as_dict model found')"
proof -
  let ?ms = "index_values requirement"
  have same: "(\<Sum>m\<leftarrow>?ms. c m * solution_value found (f m)) = (\<Sum>m\<leftarrow>?ms. c m * solution_value found' (f m))"
    if "\<And>m. m \<in> set ?ms \<Longrightarrow> solution_value found (f m) = solution_value found' (f m)"
    for c :: "cell \<Rightarrow> rat" and f found found'
    using that by (intro arg_cong [where f = sum_list] map_cong) simp_all
  have same': "(\<Sum>m\<leftarrow>?ms. solution_value found (f m)) = (\<Sum>m\<leftarrow>?ms. solution_value found' (f m))"
    if "\<And>m. m \<in> set ?ms \<Longrightarrow> solution_value found (f m) = solution_value found' (f m)"
    for f found found'
    using that by (intro arg_cong [where f = sum_list] map_cong) simp_all
  show ?thesis
    unfolding create_base_model_planned [OF assms]
    by (auto simp: planned_def kpis_as_dict_def eval_terms intro!: same same')
qed


lemma sample_tabulated:
  "tabulated sample_inputs indexed_products indexed_capacity
     (per_car 10 5) (per_car 2 3) (per_car 1 2) (per_car 300 500) 100 80"
  by (simp add: tabulated_def sample_inputs_def on_value_def input_frame_def set_index_def
      products_def capacity_def indexed_products_def indexed_capacity_def cell_at_def
      index_values_def loc_def per_car_def)

lemma sample_names:
  "index_values indexed_products = [Str ''CAR1'', Str ''CAR2'']"
  "var_name label_text n (Str t) = n @ ''__'' @ t"
  by (simp_all add: index_values_def indexed_products_def var_name_def label_text_def)

theorem create_base_model_constraints_witness:
  "tabulated sample_inputs indexed_products indexed_capacity
     (per_car 10 5) (per_car 2 3) (per_car 1 2) (per_car 300 500) 100 80 \<and>
   (\<exists>model. create_base_model label_text sample_inputs = Inr model \<and>
      constraints model =
        [\<lparr>lhs = [(1, ''QtyToProduce__CAR1''), (1, ''UnfulfilledDemand__CAR1'')], sense = GE, rhs = 10\<rparr>,
         \<lparr>lhs = [(1, ''QtyToProduce__CAR2''), (1, ''UnfulfilledDemand__CAR2'')], sense = GE, rhs = 5\<rparr>,
         \<lparr>lhs = [(2, ''QtyToProduce__CAR1''), (3, ''QtyToProduce__CAR2'')], sense = LE, rhs = 100\<rparr>,
         \<lparr>lhs = [(1, ''QtyToProduce__CAR1''), (2, ''QtyToProduce__CAR2'')], sense = LE, rhs = 80\<rparr>] \<and>
      objective model = Some (Maximize, [(300, ''QtyToProduce__CAR1''), (500, ''QtyToProduce__CAR2'')]))"
proof -
  from create_base_model_constraints [OF sample_tabulated, of label_text]
  obtain model where "create_base_model label_text sample_inputs = Inr model"
    "constraints model =
       map (\<lambda>m. \<lparr>lhs = [(1, var_name label_text ''QtyToProduce'' m), (1, var_name label_text ''UnfulfilledDemand'' m)],
                  sense = GE, rhs = per_car 10 5 m\<rparr>) (index_values indexed_products) @
       [\<lparr>lhs = map (\<lambda>m. (per_car 2 3 m, var_name label_text ''QtyToProduce'' m)) (index_values indexed_products),
         sense = LE, rhs = 100\<rparr>,
        \<lparr>lhs = map (\<lambda>m. (per_car 1 2 m, var_name label_text ''QtyToProduce'' m)) (index_values indexed_products),
         sense = LE, rhs = 80\<rparr>]"
    "objective model =
       Some (Maximize, map (\<lambda>m. (per_car 300 500 m, var_name label_text ''QtyToProduce'' m)) (index_values indexed_products))"
    by blast
  then show ?thesis
    using sample_tabulated by (simp add: sample_names per_car_def)
qed

theorem create_base_model_kpis_witness:
  "tabulated sample_inputs indexed_products indexed_capacity
     (per_car 10 5) (per_car 2 3) (per_car 1 2) (per_car 300 500) 100 80 \<and>
   (\<exists>model. create_base_model label_text sample_inputs = Inr model \<and>
      kpis model =
        [(''Projected Profit'', [(300, ''QtyToProduce__CAR1''), (500, ''QtyToProduce__CAR2'')]),
         (''Unfulfilled Demand'', [(1, ''UnfulfilledDemand__CAR1''), (1, ''UnfulfilledDemand__CAR2'')])] \<and>
      kpis_as_dict model [(''QtyToProduce__CAR1'', 20), (''UnfulfilledDemand__CAR2'', 5)] =
        [(''Projected Profit'', 6000), (''Unfulfilled Demand'', 5)])"
proof -
  from create_base_model_kpis [OF sample_tabulated, of label_text]
  obtain model where "create_base_model label_text sample_inputs = Inr model"
    "kpis model =
       [(''Projected Profit'',
           map (\<lambda>m. (per_car 300 500 m, var_name label_text ''QtyToProduce'' m)) (index_values indexed_products)),
        (''Unfulfilled Demand'',
           map (\<lambda>m. (1, var_name label_text ''UnfulfilledDemand'' m)) (index_values indexed_products))]"
    "kpis_as_dict model [(''QtyToProduce__CAR1'', 20), (''UnfulfilledDemand__CAR2'', 5)] =
        [(''Projected Profit'',
            \<Sum>m\<leftarrow>index_values indexed_products.
               per_car 300 500 m * solution_value [(''QtyToProduce__CAR1'', 20), (''UnfulfilledDemand__CAR2'', 5)] (var_name label_text ''QtyToProduce'' m)),
         (''Unfulfilled Demand'',
            \<Sum>m\<leftarrow>index_values indexed_products. solution_value [(''QtyToProduce__CAR1'', 20), (''UnfulfilledDemand__CAR2'', 5)] (var_name label_text ''UnfulfilledDemand'' m))]"
    by blast
  then show ?thesis
    using sample_tabulated by (simp add: sample_names per_car_def solution_value_def)
qed


text \<open>
  C1. The script \<^verbatim>\<open>model.py\<close> runs \<^verbatim>\<open>get_all_inputs\<close>, \<^verbatim>\<open>create_base_model\<close> on the inputs
  read, \<^verbatim>\<open>solve_model\<close> on the model built, \<^verbatim>\<open>parse_solution\<close> on the solved model and
  \<^verbatim>\<open>outputs_to_csv\<close> on the outputs parsed, in this order; a stage that raises ends the
  script with its exception, before anything is written.
\<close>

theorem model_main_pipeline:
  "model_main fmt solver s =
     (case get_all_inputs s of
        Inl e \<Rightarrow> (Inl e, s)
      | Inr input_files \<Rightarrow>
          (case create_base_model fmt input_files of
             Inl e \<Rightarrow> (Inl e, s)
           | Inr model_formulation \<Rightarrow>
               (case solve_model solver model_formulation of
                  Inl e \<Rightarrow> (Inl e, s)
                | Inr solved_model \<Rightarrow>
                    (case parse_solution solved_model of
                       Inl e \<Rightarrow> (Inl e, s)
                     | Inr output_files \<Rightarrow> outputs_to_csv output_files s))))"
  by (simp add: model_main_def and_then_def pure_def split: sum.splits)

lemma split_samples:
  "split_name ''QtyToProduce__CAR1'' = [''QtyToProduce'', ''CAR1'']"
  "split_name ''UnfulfilledDemand__CAR2'' = [''UnfulfilledDemand'', ''CAR2'']"
  by simp_all

lemma sample_parsed:
  "parse_solution
     (planned label_text (index_values indexed_products) (per_car 10 5) (per_car 2 3) (per_car 1 2)
        (per_car 300 500) 100 80
      \<lparr>solution := Some [(''QtyToProduce__CAR1'', 20), (''UnfulfilledDemand__CAR2'', 5)]\<rparr>) =
   Inr [(''solution'',
           \<lparr>columns = [''QtyToProduce'', ''UnfulfilledDemand''],
            records = [(Str ''CAR1'', [(''QtyToProduce'', Num 20)]),
                       (Str ''CAR2'', [(''UnfulfilledDemand'', Num 5)])]\<rparr>),
        (''kpis'',
           \<lparr>columns = [''Projected Profit'', ''Unfulfilled Demand''],
            records = [(Num 0, [(''Projected Profit'', Num 6000), (''Unfulfilled Demand'', Num 5)])]\<rparr>)]"
  by (simp add: parse_solution_def planned_def on_value_def split_samples set_loc_def
      index_values_def indexed_products_def kpis_as_dict_def eval_expr_def solution_value_def
      var_name_def label_text_def per_car_def)

theorem model_main_pipeline_witness:
  "fst (model_main label_text sample_solver ready) = Inr () \<and>
   events (snd (model_main label_text sample_solver ready)) =
     [Printed ''solution.csv'', Printed ''kpis.csv''] \<and>
   listing (snd (model_main label_text sample_solver ready)) =
     [''Availability.csv'', ''model.py'', ''ProductInfo.csv'', ''solution.csv'', ''kpis.csv''] \<and>
   files (snd (model_main label_text sample_solver ready)) ''kpis.csv'' =
     Some (csv_file
       \<lparr>columns = [''Projected Profit'', ''Unfulfilled Demand''],
        records = [(Num 0, [(''Projected Profit'', Num 6000), (''Unfulfilled Demand'', Num 5)])]\<rparr>)"
proof -
  have inputs: "get_all_inputs ready = Inr sample_inputs"
    by (simp add: ready_inputs sample_inputs_def)
  note built = create_base_model_planned [OF sample_tabulated, of label_text]
  show ?thesis
    unfolding model_main_pipeline
    by (simp add: inputs built solve_model_def sample_solver_def on_value_def sample_parsed
        outputs_to_csv_def write_csv_def emit_def csv_frame_def csv_file_def)
       (simp add: ready_def configured_def Let_def)
qed


end
